theory Spec2Isabelle
  imports Main "HOL-Library.Word"
begin

section \<open>JavaScript values used by the OAuth state machine\<close>

text \<open>
  A JavaScript string is a sequence of UTF-16 code units. String literals of the source
  are ASCII and are written \<open>lit ''...''\<close>.
\<close>

type_synonym code_unit = "16 word"
type_synonym js_string = "code_unit list"

definition lit :: "string \<Rightarrow> js_string" where
  "lit s = map (\<lambda>c. of_nat (of_char c)) s"

text \<open>
  \<open>String.prototype.trim\<close> removes, at both ends, the code units that ECMAScript calls
  WhiteSpace (TAB, VT, FF, SP, NBSP, ZWNBSP and the Unicode space separators) or
  LineTerminator (LF, CR, LS, PS). All of them are single code units.
\<close>

definition white_space_units :: "code_unit list" where
  "white_space_units =
     [0x0009, 0x000A, 0x000B, 0x000C, 0x000D, 0x0020, 0x00A0, 0x1680,
      0x2000, 0x2001, 0x2002, 0x2003, 0x2004, 0x2005, 0x2006, 0x2007,
      0x2008, 0x2009, 0x200A, 0x2028, 0x2029, 0x202F, 0x205F, 0x3000, 0xFEFF]"

definition is_white_space :: "code_unit \<Rightarrow> bool" where
  "is_white_space c = (c \<in> set white_space_units)"

definition trim :: "js_string \<Rightarrow> js_string" where
  "trim s = rev (dropWhile is_white_space (rev (dropWhile is_white_space s)))"

text \<open>\<open>Array.prototype.join\<close> on an array of strings.\<close>

fun join :: "js_string \<Rightarrow> js_string list \<Rightarrow> js_string" where
  "join sep [] = []"
| "join sep [x] = x"
| "join sep (x # y # ys) = x @ sep @ join sep (y # ys)"

text \<open>
  An \<open>Error\<close> object carries its message. A thrown value is an \<open>Error\<close> or anything
  else; a value that is not an \<open>Error\<close> is represented by what \<open>String(e)\<close> does with it,
  the only thing the source asks of it: \<open>String(e)\<close> yields a string (\<open>ThrownValue\<close>), or
  it throws in turn (\<open>ThrownUnprintable\<close>, with what it throws), as it does for an object
  without a conversion to a primitive, such as \<open>Object.create(null)\<close>.
\<close>

datatype error = Error (message: js_string)

datatype thrown = ThrownError error | ThrownValue js_string | ThrownUnprintable thrown

text \<open>
  The \<open>catch\<close> clause of \<open>metadata_discovery\<close>:
  \<open>e instanceof Error ? e : new Error(String(e))\<close>. It yields the error to record, or
  throws what \<open>String(e)\<close> throws.
\<close>

fun as_Error :: "thrown \<Rightarrow> thrown + error" where
  "as_Error (ThrownError e) = Inr e"
| "as_Error (ThrownValue s) = Inr (Error s)"
| "as_Error (ThrownUnprintable t) = Inl t"

text \<open>
  A \<open>URL\<close> object, with the two properties that matter here: \<open>href\<close>, the whole
  serialised URL (what \<open>toString()\<close> returns), and \<open>origin\<close>, its scheme, host and port.
\<close>

datatype url = URL (href: js_string) (origin: js_string)

section \<open>Data model\<close>

datatype OAuthStep =
    metadata_discovery
  | client_registration
  | authorization_redirect
  | authorization_code
  | token_request
  | complete

text \<open>
  The metadata, client and token documents belong to the protocol library. The state machine
  reads \<open>scopes_supported\<close> and \<open>authorization_servers\<close> only; what else a document holds
  is kept as one opaque value.
\<close>

record OAuthMetadata =
  scopes_supported :: "js_string list option"
  metadata_rest :: js_string

record OAuthProtectedResourceMetadata =
  authorization_servers :: "js_string list option"
  resource_scopes_supported :: "js_string list option"
  resource_rest :: js_string

record OAuthClientMetadata =
  scope :: "js_string option"
  client_metadata_rest :: js_string

datatype OAuthClientInformation = ClientInformation js_string

datatype OAuthTokens = Tokens js_string

text \<open>
  Modelled from the spec: the type \<open>AuthDebuggerState\<close> is declared in \<open>./auth-types\<close>,
  which is not among the source files. The fields are those of the spec's Debugger State
  (section 3) under the names the source and the component test use. \<open>authorizationCode\<close>
  is optional so that the absent code the spec speaks of can be written down.
\<close>

record AuthDebuggerState =
  isInitiatingAuth :: bool
  oauthTokens :: "OAuthTokens option"
  oauthStep :: OAuthStep
  resourceMetadata :: "OAuthProtectedResourceMetadata option"
  resourceMetadataError :: "error option"
  authServerUrl :: "url option"
  oauthMetadata :: "OAuthMetadata option"
  oauthClientInfo :: "OAuthClientInformation option"
  authorizationUrl :: "js_string option"
  authorizationCode :: "js_string option"
  latestError :: "error option"
  statusMessage :: "(js_string \<times> js_string) option"
  validationError :: "js_string option"

text \<open>
  \<open>Partial<AuthDebuggerState>\<close>, the argument of \<open>updateState\<close>: every field may be
  left out (\<open>None\<close>) or given a value, which for a nullable field may be \<open>null\<close>
  (\<open>Some None\<close>).
\<close>

record Updates =
  set_isInitiatingAuth :: "bool option"
  set_oauthTokens :: "OAuthTokens option option"
  set_oauthStep :: "OAuthStep option"
  set_resourceMetadata :: "OAuthProtectedResourceMetadata option option"
  set_resourceMetadataError :: "error option option"
  set_authServerUrl :: "url option option"
  set_oauthMetadata :: "OAuthMetadata option option"
  set_oauthClientInfo :: "OAuthClientInformation option option"
  set_authorizationUrl :: "js_string option option"
  set_authorizationCode :: "js_string option option"
  set_latestError :: "error option option"
  set_statusMessage :: "(js_string \<times> js_string) option option"
  set_validationError :: "js_string option option"

definition no_updates :: Updates where
  "no_updates =
     \<lparr>set_isInitiatingAuth = None, set_oauthTokens = None, set_oauthStep = None,
      set_resourceMetadata = None, set_resourceMetadataError = None,
      set_authServerUrl = None, set_oauthMetadata = None, set_oauthClientInfo = None,
      set_authorizationUrl = None, set_authorizationCode = None, set_latestError = None,
      set_statusMessage = None, set_validationError = None\<rparr>"

text \<open>
  Modelled from the spec: the caller's merge of a patch into the Debugger State is not among
  the source files; section 9 of the spec describes it as a plain field-wise overwrite.
\<close>

definition merge :: "AuthDebuggerState \<Rightarrow> Updates \<Rightarrow> AuthDebuggerState" where
  "merge s u =
     \<lparr>isInitiatingAuth = (case set_isInitiatingAuth u of None \<Rightarrow> isInitiatingAuth s | Some v \<Rightarrow> v),
      oauthTokens = (case set_oauthTokens u of None \<Rightarrow> oauthTokens s | Some v \<Rightarrow> v),
      oauthStep = (case set_oauthStep u of None \<Rightarrow> oauthStep s | Some v \<Rightarrow> v),
      resourceMetadata = (case set_resourceMetadata u of None \<Rightarrow> resourceMetadata s | Some v \<Rightarrow> v),
      resourceMetadataError =
        (case set_resourceMetadataError u of None \<Rightarrow> resourceMetadataError s | Some v \<Rightarrow> v),
      authServerUrl = (case set_authServerUrl u of None \<Rightarrow> authServerUrl s | Some v \<Rightarrow> v),
      oauthMetadata = (case set_oauthMetadata u of None \<Rightarrow> oauthMetadata s | Some v \<Rightarrow> v),
      oauthClientInfo = (case set_oauthClientInfo u of None \<Rightarrow> oauthClientInfo s | Some v \<Rightarrow> v),
      authorizationUrl = (case set_authorizationUrl u of None \<Rightarrow> authorizationUrl s | Some v \<Rightarrow> v),
      authorizationCode =
        (case set_authorizationCode u of None \<Rightarrow> authorizationCode s | Some v \<Rightarrow> v),
      latestError = (case set_latestError u of None \<Rightarrow> latestError s | Some v \<Rightarrow> v),
      statusMessage = (case set_statusMessage u of None \<Rightarrow> statusMessage s | Some v \<Rightarrow> v),
      validationError = (case set_validationError u of None \<Rightarrow> validationError s | Some v \<Rightarrow> v)\<rparr>"

section \<open>Collaborators\<close>

text \<open>
  The Protocol Client: the functions imported from the protocol library, the metadata schema
  and the \<open>URL\<close> constructor. Each may throw; \<open>discoverOAuthMetadata\<close> may also resolve to
  \<open>undefined\<close>, and the source tests the result of
  \<open>discoverOAuthProtectedResourceMetadata\<close> for being set. They are parameters of the model.
  The arguments are those of the source's calls, in the order of the source:
  \<^item> \<open>registerClient serverUrl metadata clientMetadata\<close>
  \<^item> \<open>startAuthorization serverUrl metadata clientInformation redirectUrl scope\<close>,
    resolving to \<open>(authorizationUrl, codeVerifier)\<close>
  \<^item> \<open>exchangeAuthorization serverUrl metadata clientInformation authorizationCode
    codeVerifier redirectUri\<close>
\<close>

record ProtocolClient =
  new_URL :: "js_string \<Rightarrow> thrown + url"
  discoverOAuthProtectedResourceMetadata ::
    "js_string \<Rightarrow> thrown + OAuthProtectedResourceMetadata option"
  discoverOAuthMetadata :: "url \<Rightarrow> thrown + OAuthMetadata option"
  parseAsync :: "OAuthMetadata \<Rightarrow> thrown + OAuthMetadata"
  registerClient ::
    "js_string \<Rightarrow> OAuthMetadata \<Rightarrow> OAuthClientMetadata \<Rightarrow> thrown + OAuthClientInformation"
  startAuthorization ::
    "js_string \<Rightarrow> OAuthMetadata \<Rightarrow> OAuthClientInformation \<Rightarrow> js_string \<Rightarrow> js_string option
       \<Rightarrow> thrown + (url \<times> js_string)"
  exchangeAuthorization ::
    "js_string \<Rightarrow> OAuthMetadata \<Rightarrow> OAuthClientInformation \<Rightarrow> js_string option \<Rightarrow> js_string
       \<Rightarrow> js_string \<Rightarrow> thrown + OAuthTokens"

text \<open>
  Modelled from the spec: the class \<open>DebugInspectorOAuthClientProvider\<close> is declared in
  \<open>./auth\<close>, which is not among the source files. It is the Persistent Auth Store of the
  spec (section 4.3), scoped to one target server: loads of the server metadata, the client
  information and the code verifier, and the matching saves. A load is the value the store
  holds when the step starts (absent is \<open>None\<close>; loading the verifier may fail instead);
  a save is recorded as an effect of the step.
\<close>

record OAuthClientProvider =
  clientMetadata :: OAuthClientMetadata
  redirectUrl :: js_string
  getServerMetadata :: "OAuthMetadata option"
  clientInformation :: "OAuthClientInformation option"
  codeVerifier :: "thrown + js_string"

datatype store_write =
    saveServerMetadata OAuthMetadata
  | saveClientInformation OAuthClientInformation
  | saveCodeVerifier js_string
  | saveTokens OAuthTokens

datatype request =
    DiscoverOAuthProtectedResourceMetadata js_string
  | DiscoverOAuthMetadata url
  | RegisterClient js_string OAuthMetadata OAuthClientMetadata
  | StartAuthorization js_string OAuthMetadata OAuthClientInformation js_string "js_string option"
  | ExchangeAuthorization js_string OAuthMetadata OAuthClientInformation "js_string option"
      js_string js_string

text \<open>
  What a step does, in the order in which it does it: calls of the Protocol Client, saves to
  the store, and calls of \<open>updateState\<close>. A run is this trace with the way the promise
  settles: \<open>Inr ()\<close> when it resolves, \<open>Inl e\<close> when it rejects with \<open>e\<close>.
\<close>

datatype effect = Request request | Store store_write | updateState Updates

record run =
  effects :: "effect list"
  outcome :: "thrown + unit"

fun patch_of :: "effect \<Rightarrow> Updates option" where
  "patch_of (updateState u) = Some u"
| "patch_of _ = None"

definition patches :: "run \<Rightarrow> Updates list" where
  "patches r = List.map_filter patch_of (effects r)"

fun write_of :: "effect \<Rightarrow> store_write option" where
  "write_of (Store w) = Some w"
| "write_of _ = None"

definition store_writes :: "run \<Rightarrow> store_write list" where
  "store_writes r = List.map_filter write_of (effects r)"

fun request_of :: "effect \<Rightarrow> request option" where
  "request_of (Request q) = Some q"
| "request_of _ = None"

definition requests :: "run \<Rightarrow> request list" where
  "requests r = List.map_filter request_of (effects r)"

record StateMachineContext =
  state :: AuthDebuggerState
  serverUrl :: js_string
  provider :: OAuthClientProvider

record StateTransition =
  canTransition :: "StateMachineContext \<Rightarrow> bool"
  execute :: "ProtocolClient \<Rightarrow> StateMachineContext \<Rightarrow> run"

section \<open>The transition table\<close>

text \<open>Truthiness of a \<open>string | null | undefined\<close>: absent and empty are falsy.\<close>

fun truthy :: "js_string option \<Rightarrow> bool" where
  "truthy None = False"
| "truthy (Some s) = (s \<noteq> [])"

subsection \<open>\<open>metadata_discovery\<close>\<close>

text \<open>
  The \<open>try\<close> statement: the three variables \<open>authServerUrl\<close>, \<open>resourceMetadata\<close> and
  \<open>resourceMetadataError\<close> as they stand after it, starting from the URL built from the
  target's \<open>serverUrl\<close>; or what the \<open>catch\<close> clause throws.
\<close>

definition discover_resource ::
  "ProtocolClient \<Rightarrow> js_string \<Rightarrow> url
     \<Rightarrow> thrown + (url \<times> OAuthProtectedResourceMetadata option \<times> error option)" where
  "discover_resource pc target own =
     (case discoverOAuthProtectedResourceMetadata pc target of
        Inl e \<Rightarrow>
          (case as_Error e of
             Inl t \<Rightarrow> Inl t
           | Inr err \<Rightarrow> Inr (own, None, Some err))
      | Inr None \<Rightarrow> Inr (own, None, None)
      | Inr (Some r) \<Rightarrow>
          (case authorization_servers r of
             Some (first # _) \<Rightarrow>
               (case new_URL pc first of
                  Inl e \<Rightarrow>
                    (case as_Error e of
                       Inl t \<Rightarrow> Inl t
                     | Inr err \<Rightarrow> Inr (own, Some r, Some err))
                | Inr u \<Rightarrow> Inr (u, Some r, None))
           | _ \<Rightarrow> Inr (own, Some r, None)))"

definition metadata_discovery_execute :: "ProtocolClient \<Rightarrow> StateMachineContext \<Rightarrow> run" where
  "metadata_discovery_execute pc ctx =
     (case new_URL pc (serverUrl ctx) of
        Inl e \<Rightarrow> \<lparr>effects = [], outcome = Inl e\<rparr>
      | Inr own \<Rightarrow>
          (case discover_resource pc (serverUrl ctx) own of
             Inl t \<Rightarrow>
               \<lparr>effects = [Request (DiscoverOAuthProtectedResourceMetadata (serverUrl ctx))],
                outcome = Inl t\<rparr>
           | Inr (authServerUrl', resourceMetadata', resourceMetadataError') \<Rightarrow>
               (let called = [Request (DiscoverOAuthProtectedResourceMetadata (serverUrl ctx)),
                              Request (DiscoverOAuthMetadata authServerUrl')]
                in case discoverOAuthMetadata pc authServerUrl' of
                     Inl e \<Rightarrow> \<lparr>effects = called, outcome = Inl e\<rparr>
                   | Inr None \<Rightarrow>
                       \<lparr>effects = called,
                        outcome = Inl (ThrownError (Error (lit ''Failed to discover OAuth metadata'')))\<rparr>
                   | Inr (Some metadata) \<Rightarrow>
                       (case parseAsync pc metadata of
                          Inl e \<Rightarrow> \<lparr>effects = called, outcome = Inl e\<rparr>
                        | Inr parsedMetadata \<Rightarrow>
                            \<lparr>effects = called @
                               [Store (saveServerMetadata parsedMetadata),
                                updateState (no_updates
                                  \<lparr>set_resourceMetadata := Some resourceMetadata',
                                   set_resourceMetadataError := Some resourceMetadataError',
                                   set_authServerUrl := Some (Some authServerUrl'),
                                   set_oauthMetadata := Some (Some parsedMetadata),
                                   set_oauthStep := Some client_registration\<rparr>)],
                             outcome = Inr ()\<rparr>))))"

subsection \<open>\<open>client_registration\<close>\<close>

text \<open>
  \<open>context.state.resourceMetadata?.scopes_supported || metadata.scopes_supported\<close>: an
  array, even an empty one, is truthy, so the first list wins whenever it is there.
\<close>

definition scopesSupported :: "AuthDebuggerState \<Rightarrow> OAuthMetadata \<Rightarrow> js_string list option" where
  "scopesSupported s metadata =
     (case resourceMetadata s of
        None \<Rightarrow> scopes_supported metadata
      | Some r \<Rightarrow>
          (case resource_scopes_supported r of
             None \<Rightarrow> scopes_supported metadata
           | Some xs \<Rightarrow> Some xs))"

definition registration_payload ::
  "AuthDebuggerState \<Rightarrow> OAuthMetadata \<Rightarrow> OAuthClientMetadata \<Rightarrow> OAuthClientMetadata" where
  "registration_payload s metadata cm =
     (case scopesSupported s metadata of
        None \<Rightarrow> cm
      | Some xs \<Rightarrow> cm\<lparr>scope := Some (join (lit '' '') xs)\<rparr>)"

text \<open>
  The actions assert their inputs (\<open>oauthMetadata!\<close>, \<open>oauthClientInfo!\<close>,
  \<open>getServerMetadata()!\<close>): \<open>executeStep\<close> runs an action only after its precondition,
  which has checked them. The branch for an absent value makes the action total; it is not
  reached from \<open>executeStep\<close>, and it rejects without any effect.
\<close>

definition null_dereference :: thrown where
  "null_dereference = ThrownError (Error (lit ''TypeError''))"

definition client_registration_execute :: "ProtocolClient \<Rightarrow> StateMachineContext \<Rightarrow> run" where
  "client_registration_execute pc ctx =
     (case oauthMetadata (state ctx) of
        None \<Rightarrow> \<lparr>effects = [], outcome = Inl null_dereference\<rparr>
      | Some metadata \<Rightarrow>
          (let payload = registration_payload (state ctx) metadata (clientMetadata (provider ctx));
               called = [Request (RegisterClient (serverUrl ctx) metadata payload)]
           in case registerClient pc (serverUrl ctx) metadata payload of
                Inl e \<Rightarrow> \<lparr>effects = called, outcome = Inl e\<rparr>
              | Inr fullInformation \<Rightarrow>
                  \<lparr>effects = called @
                     [Store (saveClientInformation fullInformation),
                      updateState (no_updates
                        \<lparr>set_oauthClientInfo := Some (Some fullInformation),
                         set_oauthStep := Some authorization_redirect\<rparr>)],
                   outcome = Inr ()\<rparr>))"

subsection \<open>\<open>authorization_redirect\<close>\<close>

definition authorization_redirect_execute :: "ProtocolClient \<Rightarrow> StateMachineContext \<Rightarrow> run" where
  "authorization_redirect_execute pc ctx =
     (case oauthMetadata (state ctx) of
        None \<Rightarrow> \<lparr>effects = [], outcome = Inl null_dereference\<rparr>
      | Some metadata \<Rightarrow>
          (case oauthClientInfo (state ctx) of
             None \<Rightarrow> \<lparr>effects = [], outcome = Inl null_dereference\<rparr>
           | Some clientInformation' \<Rightarrow>
               (let scope' = (case scopes_supported metadata of
                                None \<Rightarrow> None
                              | Some xs \<Rightarrow> Some (join (lit '' '') xs));
                    called = [Request (StartAuthorization (serverUrl ctx) metadata
                                clientInformation' (redirectUrl (provider ctx)) scope')]
                in case startAuthorization pc (serverUrl ctx) metadata clientInformation'
                          (redirectUrl (provider ctx)) scope' of
                     Inl e \<Rightarrow> \<lparr>effects = called, outcome = Inl e\<rparr>
                   | Inr (authorizationUrl', codeVerifier') \<Rightarrow>
                       \<lparr>effects = called @
                          [Store (saveCodeVerifier codeVerifier'),
                           updateState (no_updates
                             \<lparr>set_authorizationUrl := Some (Some (href authorizationUrl')),
                              set_oauthStep := Some authorization_code\<rparr>)],
                        outcome = Inr ()\<rparr>)))"

subsection \<open>\<open>authorization_code\<close>\<close>

definition authorization_code_execute :: "ProtocolClient \<Rightarrow> StateMachineContext \<Rightarrow> run" where
  "authorization_code_execute pc ctx =
     (if (case authorizationCode (state ctx) of
            None \<Rightarrow> True
          | Some code \<Rightarrow> code = [] \<or> trim code = [])
      then \<lparr>effects =
              [updateState (no_updates
                 \<lparr>set_validationError :=
                    Some (Some (lit ''You need to provide an authorization code''))\<rparr>)],
            outcome = Inl (ThrownError (Error (lit ''Authorization code required'')))\<rparr>
      else \<lparr>effects =
              [updateState (no_updates
                 \<lparr>set_validationError := Some None,
                  set_oauthStep := Some token_request\<rparr>)],
            outcome = Inr ()\<rparr>)"

subsection \<open>\<open>token_request\<close>\<close>

definition token_request_canTransition :: "StateMachineContext \<Rightarrow> bool" where
  "token_request_canTransition ctx =
     (truthy (authorizationCode (state ctx))
      \<and> getServerMetadata (provider ctx) \<noteq> None
      \<and> clientInformation (provider ctx) \<noteq> None)"

definition token_request_execute :: "ProtocolClient \<Rightarrow> StateMachineContext \<Rightarrow> run" where
  "token_request_execute pc ctx =
     (case codeVerifier (provider ctx) of
        Inl e \<Rightarrow> \<lparr>effects = [], outcome = Inl e\<rparr>
      | Inr codeVerifier' \<Rightarrow>
          (case getServerMetadata (provider ctx) of
             None \<Rightarrow> \<lparr>effects = [], outcome = Inl null_dereference\<rparr>
           | Some metadata \<Rightarrow>
               (case clientInformation (provider ctx) of
                  None \<Rightarrow> \<lparr>effects = [], outcome = Inl null_dereference\<rparr>
                | Some clientInformation' \<Rightarrow>
                    (let called = [Request (ExchangeAuthorization (serverUrl ctx) metadata
                                     clientInformation' (authorizationCode (state ctx))
                                     codeVerifier' (redirectUrl (provider ctx)))]
                     in case exchangeAuthorization pc (serverUrl ctx) metadata clientInformation'
                               (authorizationCode (state ctx)) codeVerifier'
                               (redirectUrl (provider ctx)) of
                          Inl e \<Rightarrow> \<lparr>effects = called, outcome = Inl e\<rparr>
                        | Inr tokens \<Rightarrow>
                            \<lparr>effects = called @
                               [Store (saveTokens tokens),
                                updateState (no_updates
                                  \<lparr>set_oauthTokens := Some (Some tokens),
                                   set_oauthStep := Some complete\<rparr>)],
                             outcome = Inr ()\<rparr>))))"

subsection \<open>The table and the driver\<close>

fun oauthTransitions :: "OAuthStep \<Rightarrow> StateTransition" where
  "oauthTransitions metadata_discovery =
     \<lparr>canTransition = (\<lambda>ctx. True), execute = metadata_discovery_execute\<rparr>"
| "oauthTransitions client_registration =
     \<lparr>canTransition = (\<lambda>ctx. oauthMetadata (state ctx) \<noteq> None),
      execute = client_registration_execute\<rparr>"
| "oauthTransitions authorization_redirect =
     \<lparr>canTransition = (\<lambda>ctx. oauthMetadata (state ctx) \<noteq> None
                               \<and> oauthClientInfo (state ctx) \<noteq> None),
      execute = authorization_redirect_execute\<rparr>"
| "oauthTransitions authorization_code =
     \<lparr>canTransition = (\<lambda>ctx. True), execute = authorization_code_execute\<rparr>"
| "oauthTransitions token_request =
     \<lparr>canTransition = token_request_canTransition, execute = token_request_execute\<rparr>"
| "oauthTransitions complete =
     \<lparr>canTransition = (\<lambda>ctx. False),
      execute = (\<lambda>pc ctx. \<lparr>effects = [], outcome = Inr ()\<rparr>)\<rparr>"

text \<open>The step's name as the template literal of \<open>executeStep\<close> prints it.\<close>

fun step_name :: "OAuthStep \<Rightarrow> string" where
  "step_name metadata_discovery = ''metadata_discovery''"
| "step_name client_registration = ''client_registration''"
| "step_name authorization_redirect = ''authorization_redirect''"
| "step_name authorization_code = ''authorization_code''"
| "step_name token_request = ''token_request''"
| "step_name complete = ''complete''"

definition executeStep ::
  "ProtocolClient \<Rightarrow> js_string \<Rightarrow> OAuthClientProvider \<Rightarrow> AuthDebuggerState \<Rightarrow> run" where
  "executeStep pc target prov s =
     (let ctx = \<lparr>state = s, serverUrl = target, provider = prov\<rparr>;
          transition = oauthTransitions (oauthStep s)
      in if \<not> canTransition transition ctx
         then \<lparr>effects = [],
               outcome = Inl (ThrownError
                 (Error (lit (''Cannot transition from '' @ step_name (oauthStep s)))))\<rparr>
         else execute transition pc ctx)"

text \<open>The Debugger State after the caller has merged every patch of a run, in order.\<close>

definition state_after :: "AuthDebuggerState \<Rightarrow> run \<Rightarrow> AuthDebuggerState" where
  "state_after s r = foldl merge s (patches r)"

section \<open>What the documentation says, for comparison with the table\<close>

text \<open>The order of the steps in the transition table.\<close>

fun table_position :: "OAuthStep \<Rightarrow> nat" where
  "table_position metadata_discovery = 0"
| "table_position client_registration = 1"
| "table_position authorization_redirect = 2"
| "table_position authorization_code = 3"
| "table_position token_request = 4"
| "table_position complete = 5"

text \<open>The documented next step: the step that follows in table order.\<close>

fun documented_next :: "OAuthStep \<Rightarrow> OAuthStep" where
  "documented_next metadata_discovery = client_registration"
| "documented_next client_registration = authorization_redirect"
| "documented_next authorization_redirect = authorization_code"
| "documented_next authorization_code = token_request"
| "documented_next token_request = complete"
| "documented_next complete = complete"

text \<open>A code that is absent, empty or made up of white space only.\<close>

definition blank :: "js_string option \<Rightarrow> bool" where
  "blank c = (case c of None \<Rightarrow> True | Some code \<Rightarrow> list_all is_white_space code)"


text \<open>
  The same Protocol Client, except that the code verifier it hands out with an
  authorization URL is \<open>v\<close>.
\<close>

definition with_verifier :: "js_string \<Rightarrow> ProtocolClient \<Rightarrow> ProtocolClient" where
  "with_verifier v pc =
     pc\<lparr>startAuthorization := (\<lambda>target metadata info redirect sc.
           case startAuthorization pc target metadata info redirect sc of
             Inl e \<Rightarrow> Inl e
           | Inr (u, _) \<Rightarrow> Inr (u, v))\<rparr>"

section \<open>The collaborators of the component test\<close>

text \<open>
  The values the component test gives its mocks: discovery of the protected-resource
  metadata is rejected, everything else resolves.
\<close>

definition mockOAuthMetadata :: OAuthMetadata where
  "mockOAuthMetadata =
     \<lparr>scopes_supported = None, metadata_rest = lit ''https://oauth.example.com''\<rparr>"

definition mockOAuthClientInfo :: OAuthClientInformation where
  "mockOAuthClientInfo = ClientInformation (lit ''test_client_id'')"

definition mockOAuthTokens :: OAuthTokens where
  "mockOAuthTokens = Tokens (lit ''test_access_token'')"

definition mockError :: error where
  "mockError = Error (lit ''No protected resource metadata found'')"

text \<open>
  The \<open>URL\<close> constructor at the two target URLs used below, with the \<open>href\<close> and
  \<open>origin\<close> it gives them; the mock knows no other string.
\<close>

definition mock_new_URL :: "js_string \<Rightarrow> thrown + url" where
  "mock_new_URL s =
     (if s = lit ''https://example.com''
      then Inr (URL (lit ''https://example.com/'') (lit ''https://example.com''))
      else if s = lit ''https://example.com/mcp/sse''
      then Inr (URL (lit ''https://example.com/mcp/sse'') (lit ''https://example.com''))
      else Inl (ThrownError (Error (lit ''Invalid URL''))))"

definition mockClient :: ProtocolClient where
  "mockClient =
     \<lparr>new_URL = mock_new_URL,
      discoverOAuthProtectedResourceMetadata = (\<lambda>target. Inl (ThrownError mockError)),
      discoverOAuthMetadata = (\<lambda>u. Inr (Some mockOAuthMetadata)),
      parseAsync = (\<lambda>m. Inr m),
      registerClient = (\<lambda>target m cm. Inr mockOAuthClientInfo),
      startAuthorization = (\<lambda>target m info redirect sc.
        Inr (URL (lit ''https://oauth.example.com/authorize'') (lit ''https://oauth.example.com''),
             lit ''test_verifier'')),
      exchangeAuthorization = (\<lambda>target m info code v redirect. Inr mockOAuthTokens)\<rparr>"

text \<open>The same client when the target publishes resource metadata without a server list.\<close>

definition mockResourceMetadata :: OAuthProtectedResourceMetadata where
  "mockResourceMetadata =
     \<lparr>authorization_servers = Some [], resource_scopes_supported = Some [lit ''read'', lit ''write''],
      resource_rest = lit ''https://example.com/api''\<rparr>"

definition mockClient_with_resource :: ProtocolClient where
  "mockClient_with_resource =
     mockClient\<lparr>discoverOAuthProtectedResourceMetadata :=
       (\<lambda>target. Inr (Some mockResourceMetadata))\<rparr>"

definition mockClientMetadata :: OAuthClientMetadata where
  "mockClientMetadata = \<lparr>scope = None, client_metadata_rest = lit ''MCP Inspector''\<rparr>"

text \<open>A store that holds nothing, and one that holds what the first three steps save.\<close>

definition empty_store :: OAuthClientProvider where
  "empty_store =
     \<lparr>clientMetadata = mockClientMetadata,
      redirectUrl = lit ''http://localhost:3000/oauth/callback/debug'',
      getServerMetadata = None,
      clientInformation = None,
      codeVerifier = Inl (ThrownError (Error (lit ''No code verifier saved for session'')))\<rparr>"

definition filled_store :: OAuthClientProvider where
  "filled_store =
     empty_store\<lparr>getServerMetadata := Some mockOAuthMetadata,
                 clientInformation := Some mockOAuthClientInfo,
                 codeVerifier := Inr (lit ''test_verifier'')\<rparr>"

definition EMPTY_DEBUGGER_STATE :: AuthDebuggerState where
  "EMPTY_DEBUGGER_STATE =
     \<lparr>isInitiatingAuth = False, oauthTokens = None, oauthStep = metadata_discovery,
      resourceMetadata = None, resourceMetadataError = None, authServerUrl = None,
      oauthMetadata = None, oauthClientInfo = None, authorizationUrl = None,
      authorizationCode = Some [], latestError = None, statusMessage = None,
      validationError = None\<rparr>"

definition mockServerUrl :: js_string where
  "mockServerUrl = lit ''https://example.com''"

text \<open>A target whose URL has a path, and the \<open>URL\<close> objects of the two targets.\<close>

definition mockServerUrl_with_path :: js_string where
  "mockServerUrl_with_path = lit ''https://example.com/mcp/sse''"

definition mockServer_URL :: url where
  "mockServer_URL = URL (lit ''https://example.com/'') (lit ''https://example.com'')"

definition mockServer_URL_with_path :: url where
  "mockServer_URL_with_path =
     URL (lit ''https://example.com/mcp/sse'') (lit ''https://example.com'')"

text \<open>
  The same client when the discovery of the resource metadata is rejected with a value that
  is not an \<open>Error\<close>: a string, and an object that \<open>String\<close> cannot convert.
\<close>

definition mockClient_throwing_string :: ProtocolClient where
  "mockClient_throwing_string =
     mockClient\<lparr>discoverOAuthProtectedResourceMetadata :=
       (\<lambda>target. Inl (ThrownValue (lit ''Not Found'')))\<rparr>"

definition mockClient_throwing_object :: ProtocolClient where
  "mockClient_throwing_object =
     mockClient\<lparr>discoverOAuthProtectedResourceMetadata :=
       (\<lambda>target. Inl (ThrownUnprintable
          (ThrownError (Error (lit ''Cannot convert object to primitive value'')))))\<rparr>"

text \<open>
  The state after the operator has come back from the authorization server: the in-memory
  metadata and client information are lost, the code is typed in.
\<close>

definition returned_state :: "js_string \<Rightarrow> AuthDebuggerState" where
  "returned_state code =
     EMPTY_DEBUGGER_STATE\<lparr>oauthStep := token_request, authorizationCode := Some code\<rparr>"

text \<open>
  A run settles at \<open>n\<close> when it either resolves with exactly one patch, which sets the step
  to \<open>n\<close>, or rejects with no patch that sets the step.
\<close>

definition settles :: "OAuthStep \<Rightarrow> run \<Rightarrow> bool" where
  "settles n r =
     (if outcome r = Inr ()
      then map set_oauthStep (patches r) = [Some n]
      else list_all (\<lambda>u. set_oauthStep u = None) (patches r))"

section \<open>Strings\<close>

lemma lit_eq_Nil: "lit s = [] \<longleftrightarrow> s = []"
  by (simp add: lit_def)


lemma dropWhile_all: "(\<forall>x\<in>set (dropWhile P xs). P x) \<longleftrightarrow> (\<forall>x\<in>set xs. P x)"
  by (induction xs) auto

text \<open>Trimming leaves nothing exactly when every code unit is white space.\<close>

lemma trim_empty_iff: "trim s = [] \<longleftrightarrow> (\<forall>c\<in>set s. is_white_space c)"
  by (simp add: trim_def dropWhile_all)

lemma blank_iff:
  "blank c \<longleftrightarrow> (case c of None \<Rightarrow> True | Some code \<Rightarrow> code = [] \<or> trim code = [])"
  by (auto simp: blank_def trim_empty_iff list_all_iff split: option.splits)

section \<open>Traces and patches\<close>

lemma patches_simps:
  "patches \<lparr>effects = [], outcome = out\<rparr> = []"
  "patches \<lparr>effects = Request q # es, outcome = out\<rparr> = patches \<lparr>effects = es, outcome = out\<rparr>"
  "patches \<lparr>effects = Store w # es, outcome = out\<rparr> = patches \<lparr>effects = es, outcome = out\<rparr>"
  "patches \<lparr>effects = updateState u # es, outcome = out\<rparr>
     = u # patches \<lparr>effects = es, outcome = out\<rparr>"
  by (simp_all add: patches_def map_filter_simps)

lemma store_writes_simps:
  "store_writes \<lparr>effects = [], outcome = out\<rparr> = []"
  "store_writes \<lparr>effects = Request q # es, outcome = out\<rparr>
     = store_writes \<lparr>effects = es, outcome = out\<rparr>"
  "store_writes \<lparr>effects = Store w # es, outcome = out\<rparr>
     = w # store_writes \<lparr>effects = es, outcome = out\<rparr>"
  "store_writes \<lparr>effects = updateState u # es, outcome = out\<rparr>
     = store_writes \<lparr>effects = es, outcome = out\<rparr>"
  by (simp_all add: store_writes_def map_filter_simps)

lemma requests_simps:
  "requests \<lparr>effects = [], outcome = out\<rparr> = []"
  "requests \<lparr>effects = Request q # es, outcome = out\<rparr>
     = q # requests \<lparr>effects = es, outcome = out\<rparr>"
  "requests \<lparr>effects = Store w # es, outcome = out\<rparr> = requests \<lparr>effects = es, outcome = out\<rparr>"
  "requests \<lparr>effects = updateState u # es, outcome = out\<rparr>
     = requests \<lparr>effects = es, outcome = out\<rparr>"
  by (simp_all add: requests_def map_filter_simps)

lemma merge_no_step: "set_oauthStep u = None \<Longrightarrow> oauthStep (merge s u) = oauthStep s"
  by (simp add: merge_def)

lemma merge_step: "set_oauthStep u = Some n \<Longrightarrow> oauthStep (merge s u) = n"
  by (simp add: merge_def)

lemma foldl_merge_no_step:
  "list_all (\<lambda>u. set_oauthStep u = None) us \<Longrightarrow> oauthStep (foldl merge s us) = oauthStep s"
  by (induction us arbitrary: s) (simp_all add: merge_no_step)

lemma foldl_merge_one_step:
  "map set_oauthStep us = [Some n] \<Longrightarrow> oauthStep (foldl merge s us) = n"
  by (cases us) (simp_all add: merge_step)

lemma state_after_rejected: "state_after s \<lparr>effects = [], outcome = out\<rparr> = s"
  by (simp add: state_after_def patches_simps)

section \<open>Every action settles at the next step\<close>

lemma metadata_discovery_settles:
  "settles client_registration (metadata_discovery_execute pc ctx)"
  by (simp add: settles_def metadata_discovery_execute_def patches_simps no_updates_def Let_def
      split: sum.splits option.splits prod.splits)

lemma client_registration_settles:
  "settles authorization_redirect (client_registration_execute pc ctx)"
  by (simp add: settles_def client_registration_execute_def patches_simps no_updates_def Let_def
      split: sum.splits option.splits prod.splits)

lemma authorization_redirect_settles:
  "settles authorization_code (authorization_redirect_execute pc ctx)"
  by (simp add: settles_def authorization_redirect_execute_def patches_simps no_updates_def
      Let_def split: sum.splits option.splits prod.splits)

lemma authorization_code_settles:
  "settles token_request (authorization_code_execute pc ctx)"
  by (simp add: settles_def authorization_code_execute_def patches_simps no_updates_def)

lemma token_request_settles:
  "settles complete (token_request_execute pc ctx)"
  by (simp add: settles_def token_request_execute_def patches_simps no_updates_def Let_def
      split: sum.splits option.splits prod.splits)

lemma rejected_settles: "settles n \<lparr>effects = [], outcome = Inl e\<rparr>"
  by (simp add: settles_def patches_simps)

section \<open>The driver\<close>

lemma executeStep_rejected:
  "\<not> canTransition (oauthTransitions (oauthStep s))
       \<lparr>state = s, serverUrl = target, provider = prov\<rparr>
   \<Longrightarrow> executeStep pc target prov s =
         \<lparr>effects = [],
          outcome = Inl (ThrownError
            (Error (lit (''Cannot transition from '' @ step_name (oauthStep s)))))\<rparr>"
  by (simp add: executeStep_def Let_def)

lemma executeStep_accepted:
  "canTransition (oauthTransitions (oauthStep s))
     \<lparr>state = s, serverUrl = target, provider = prov\<rparr>
   \<Longrightarrow> executeStep pc target prov s =
         execute (oauthTransitions (oauthStep s)) pc
           \<lparr>state = s, serverUrl = target, provider = prov\<rparr>"
  by (simp add: executeStep_def Let_def)

lemma executeStep_settles:
  "settles (documented_next (oauthStep s)) (executeStep pc target prov s)"
proof (cases "canTransition (oauthTransitions (oauthStep s))
                \<lparr>state = s, serverUrl = target, provider = prov\<rparr>")
  case False
  then show ?thesis by (simp add: executeStep_rejected rejected_settles)
next
  case True
  then show ?thesis
    by (cases "oauthStep s")
       (simp_all add: executeStep_accepted metadata_discovery_settles client_registration_settles
          authorization_redirect_settles authorization_code_settles token_request_settles)
qed

lemma executeStep_complete:
  "oauthStep s = complete \<Longrightarrow>
   executeStep pc target prov s =
     \<lparr>effects = [],
      outcome = Inl (ThrownError (Error (lit ''Cannot transition from complete'')))\<rparr>"
  by (simp add: executeStep_def Let_def)

lemma table_position_next:
  "st \<noteq> complete \<Longrightarrow> table_position (documented_next st) = Suc (table_position st)"
  by (cases st) simp_all

lemmas mock_defs =
  mockClient_def mock_new_URL_def mockClient_with_resource_def mockClient_throwing_string_def
  mockClient_throwing_object_def mockServerUrl_with_path_def mockServer_URL_def
  mockServer_URL_with_path_def mockResourceMetadata_def mockOAuthMetadata_def
  mockOAuthClientInfo_def mockOAuthTokens_def mockError_def mockClientMetadata_def
  empty_store_def filled_store_def EMPTY_DEBUGGER_STATE_def mockServerUrl_def returned_state_def

section \<open>Claims\<close>

subsection \<open>C1: a successful action advances to the next step, nothing else advances\<close>

text \<open>
  C1. Let \<open>r\<close> be the run of \<open>executeStep\<close> on a state \<open>s\<close>. If \<open>r\<close> resolves, then the
  step of \<open>s\<close> is not \<open>complete\<close>, \<open>r\<close> calls \<open>updateState\<close> exactly once, the patch sets
  the step to the documented next step, and after the merge the step has moved by exactly one
  position in table order. If \<open>r\<close> rejects (a false precondition or a failing action), no
  patch of \<open>r\<close> sets the step, and after the merge the step is the one of \<open>s\<close>.
\<close>

theorem successful_action_advances_to_next_step:
  assumes "r = executeStep pc target prov s"
  shows "(outcome r = Inr () \<longrightarrow>
            oauthStep s \<noteq> complete
          \<and> map set_oauthStep (patches r) = [Some (documented_next (oauthStep s))]
          \<and> oauthStep (state_after s r) = documented_next (oauthStep s)
          \<and> table_position (oauthStep (state_after s r)) = Suc (table_position (oauthStep s)))
       \<and> (outcome r \<noteq> Inr () \<longrightarrow>
            list_all (\<lambda>u. set_oauthStep u = None) (patches r)
          \<and> oauthStep (state_after s r) = oauthStep s)"
proof (intro conjI impI)
  have settled: "settles (documented_next (oauthStep s)) r"
    using assms by (simp add: executeStep_settles)
  {
    assume ok: "outcome r = Inr ()"
    show not_complete: "oauthStep s \<noteq> complete"
    proof
      assume "oauthStep s = complete"
      then have "outcome r \<noteq> Inr ()" using assms by (simp add: executeStep_complete)
      with ok show False by simp
    qed
    from settled ok
    show one: "map set_oauthStep (patches r) = [Some (documented_next (oauthStep s))]"
      by (simp add: settles_def)
    then show after: "oauthStep (state_after s r) = documented_next (oauthStep s)"
      by (simp add: state_after_def foldl_merge_one_step)
    from after not_complete
    show "table_position (oauthStep (state_after s r)) = Suc (table_position (oauthStep s))"
      by (simp add: table_position_next)
  }
  {
    assume failed: "outcome r \<noteq> Inr ()"
    from settled failed show none: "list_all (\<lambda>u. set_oauthStep u = None) (patches r)"
      by (simp add: settles_def)
    then show "oauthStep (state_after s r) = oauthStep s"
      by (simp add: state_after_def foldl_merge_no_step)
  }
qed

text \<open>
  C1, at the test's mocks: discovery from the empty state resolves and moves on to
  \<open>client_registration\<close>; \<open>authorization_code\<close> with an empty code rejects and stays.
\<close>

theorem successful_action_advances_to_next_step_witness:
  "outcome (executeStep mockClient mockServerUrl empty_store EMPTY_DEBUGGER_STATE) = Inr ()
   \<and> oauthStep (state_after EMPTY_DEBUGGER_STATE
        (executeStep mockClient mockServerUrl empty_store EMPTY_DEBUGGER_STATE))
       = client_registration
   \<and> outcome (executeStep mockClient mockServerUrl empty_store
        (EMPTY_DEBUGGER_STATE\<lparr>oauthStep := authorization_code\<rparr>)) \<noteq> Inr ()
   \<and> oauthStep (state_after (EMPTY_DEBUGGER_STATE\<lparr>oauthStep := authorization_code\<rparr>)
        (executeStep mockClient mockServerUrl empty_store
          (EMPTY_DEBUGGER_STATE\<lparr>oauthStep := authorization_code\<rparr>))) = authorization_code"
proof -
  have ok: "outcome (executeStep mockClient mockServerUrl empty_store EMPTY_DEBUGGER_STATE)
      = Inr ()"
    by (simp add: executeStep_def metadata_discovery_execute_def discover_resource_def mock_defs)
  have failed: "outcome (executeStep mockClient mockServerUrl empty_store
        (EMPTY_DEBUGGER_STATE\<lparr>oauthStep := authorization_code\<rparr>)) \<noteq> Inr ()"
    by (simp add: executeStep_def authorization_code_execute_def mock_defs)
  show ?thesis
    using ok failed
      successful_action_advances_to_next_step [OF refl, of mockClient mockServerUrl empty_store
        EMPTY_DEBUGGER_STATE]
      successful_action_advances_to_next_step [OF refl, of mockClient mockServerUrl empty_store
        "EMPTY_DEBUGGER_STATE\<lparr>oauthStep := authorization_code\<rparr>"]
    by (simp add: EMPTY_DEBUGGER_STATE_def)
qed

subsection \<open>C2: a false precondition runs nothing\<close>

text \<open>
  C2. When the precondition of the current step is false, \<open>executeStep\<close> rejects with the
  error \<open>Cannot transition from\<close> followed by the step's name; the action is not run: the
  trace is empty, so there is no call of the Protocol Client, no save to the store and no
  call of \<open>updateState\<close>, and the Debugger State after the run is the state before it.
\<close>

theorem rejected_precondition_runs_nothing:
  assumes "\<not> canTransition (oauthTransitions (oauthStep s))
               \<lparr>state = s, serverUrl = target, provider = prov\<rparr>"
  shows "executeStep pc target prov s =
           \<lparr>effects = [],
            outcome = Inl (ThrownError
              (Error (lit (''Cannot transition from '' @ step_name (oauthStep s)))))\<rparr>
       \<and> patches (executeStep pc target prov s) = []
       \<and> requests (executeStep pc target prov s) = []
       \<and> store_writes (executeStep pc target prov s) = []
       \<and> state_after s (executeStep pc target prov s) = s"
  using assms
  by (simp add: executeStep_rejected patches_simps requests_simps store_writes_simps
      state_after_rejected)

text \<open>C2, at \<open>token_request\<close> with a typed code and nothing persisted.\<close>

theorem rejected_precondition_runs_nothing_witness:
  "\<not> canTransition (oauthTransitions (oauthStep (returned_state (lit ''abc''))))
       \<lparr>state = returned_state (lit ''abc''), serverUrl = mockServerUrl, provider = empty_store\<rparr>
   \<and> executeStep mockClient mockServerUrl empty_store (returned_state (lit ''abc'')) =
       \<lparr>effects = [],
        outcome = Inl (ThrownError (Error (lit ''Cannot transition from token_request'')))\<rparr>
   \<and> state_after (returned_state (lit ''abc''))
        (executeStep mockClient mockServerUrl empty_store (returned_state (lit ''abc'')))
       = returned_state (lit ''abc'')"
proof -
  have rejected: "\<not> canTransition (oauthTransitions (oauthStep (returned_state (lit ''abc''))))
       \<lparr>state = returned_state (lit ''abc''), serverUrl = mockServerUrl, provider = empty_store\<rparr>"
    by (simp add: returned_state_def token_request_canTransition_def empty_store_def)
  have step: "oauthStep (returned_state (lit ''abc'')) = token_request"
    by (simp add: returned_state_def)
  show ?thesis
    using rejected rejected_precondition_runs_nothing [OF rejected, of mockClient]
    by (simp add: step state_after_rejected)
qed

subsection \<open>C8: \<open>complete\<close> is terminal\<close>

text \<open>
  C8. At step \<open>complete\<close> the precondition is false in every context, \<open>executeStep\<close>
  rejects with \<open>Cannot transition from complete\<close> whatever the collaborators and the other
  fields are, and the Debugger State is left as it was: nothing leads out of \<open>complete\<close>.
\<close>

theorem complete_is_terminal:
  assumes "oauthStep s = complete"
  shows "\<not> canTransition (oauthTransitions (oauthStep s)) ctx
       \<and> executeStep pc target prov s =
           \<lparr>effects = [],
            outcome = Inl (ThrownError (Error (lit ''Cannot transition from complete'')))\<rparr>
       \<and> state_after s (executeStep pc target prov s) = s"
  using assms by (simp add: executeStep_complete state_after_rejected)

text \<open>C8, at a completed flow with everything persisted.\<close>

theorem complete_is_terminal_witness:
  "oauthStep (EMPTY_DEBUGGER_STATE\<lparr>oauthStep := complete, oauthTokens := Some mockOAuthTokens,
       authorizationCode := Some (lit ''abc'')\<rparr>) = complete
   \<and> \<not> canTransition (oauthTransitions complete)
         \<lparr>state = EMPTY_DEBUGGER_STATE\<lparr>oauthStep := complete, oauthTokens := Some mockOAuthTokens,
            authorizationCode := Some (lit ''abc'')\<rparr>,
          serverUrl = mockServerUrl, provider = filled_store\<rparr>
   \<and> outcome (executeStep mockClient mockServerUrl filled_store
        (EMPTY_DEBUGGER_STATE\<lparr>oauthStep := complete, oauthTokens := Some mockOAuthTokens,
           authorizationCode := Some (lit ''abc'')\<rparr>))
       = Inl (ThrownError (Error (lit ''Cannot transition from complete'')))"
proof -
  have a1: "oauthStep (EMPTY_DEBUGGER_STATE\<lparr>oauthStep := complete,
       oauthTokens := Some mockOAuthTokens, authorizationCode := Some (lit ''abc'')\<rparr>) = complete"
    by simp
  show ?thesis
    using a1 complete_is_terminal [OF a1, of
        "\<lparr>state = EMPTY_DEBUGGER_STATE\<lparr>oauthStep := complete, oauthTokens := Some mockOAuthTokens,
            authorizationCode := Some (lit ''abc'')\<rparr>,
          serverUrl = mockServerUrl, provider = filled_store\<rparr>" mockClient mockServerUrl filled_store]
    by simp
qed

subsection \<open>C3: what \<open>token_request\<close> requires of the metadata and the client information\<close>

text \<open>
  C3 as stated does not hold: \<open>token_request\<close> may run while the in-memory
  \<open>oauthMetadata\<close> and \<open>oauthClientInfo\<close> are absent. After the return from the
  authorization server the Debugger State holds neither, the store holds both, and with a
  typed code the precondition is true and the step resolves.
\<close>

theorem token_request_ignores_in_memory_metadata:
  "oauthStep (returned_state (lit ''abc'')) = token_request
   \<and> canTransition (oauthTransitions token_request)
       \<lparr>state = returned_state (lit ''abc''), serverUrl = mockServerUrl, provider = filled_store\<rparr>
   \<and> oauthMetadata (returned_state (lit ''abc'')) = None
   \<and> oauthClientInfo (returned_state (lit ''abc'')) = None
   \<and> outcome (executeStep mockClient mockServerUrl filled_store (returned_state (lit ''abc'')))
       = Inr ()"
  by (simp add: executeStep_def token_request_canTransition_def token_request_execute_def
      mock_defs lit_eq_Nil)

text \<open>
  C3, amended. Whenever the precondition of \<open>token_request\<close> holds, the server metadata
  and the client information persisted in the store are present; the in-memory
  \<open>oauthMetadata\<close> and \<open>oauthClientInfo\<close> are not consulted: the precondition holds just
  as well with any other values \<open>m\<close> and \<open>c\<close> in their place.
\<close>

theorem token_request_needs_persisted_metadata:
  assumes "oauthStep s = token_request"
    and "canTransition (oauthTransitions (oauthStep s))
           \<lparr>state = s, serverUrl = target, provider = prov\<rparr>"
  shows "getServerMetadata prov \<noteq> None \<and> clientInformation prov \<noteq> None
       \<and> canTransition (oauthTransitions token_request)
           \<lparr>state = s\<lparr>oauthMetadata := m, oauthClientInfo := c\<rparr>, serverUrl = target,
            provider = prov\<rparr>"
  using assms by (simp add: token_request_canTransition_def)

text \<open>C3 amended, at the state after the return with everything persisted.\<close>

theorem token_request_needs_persisted_metadata_witness:
  "oauthStep (returned_state (lit ''abc'')) = token_request
   \<and> canTransition (oauthTransitions (oauthStep (returned_state (lit ''abc''))))
       \<lparr>state = returned_state (lit ''abc''), serverUrl = mockServerUrl, provider = filled_store\<rparr>
   \<and> getServerMetadata filled_store \<noteq> None \<and> clientInformation filled_store \<noteq> None"
proof -
  have step: "oauthStep (returned_state (lit ''abc'')) = token_request"
    by (simp add: returned_state_def)
  have allowed: "canTransition (oauthTransitions (oauthStep (returned_state (lit ''abc''))))
       \<lparr>state = returned_state (lit ''abc''), serverUrl = mockServerUrl, provider = filled_store\<rparr>"
    by (simp add: token_request_canTransition_def mock_defs lit_eq_Nil)
  show ?thesis
    using step allowed token_request_needs_persisted_metadata [OF step allowed] by simp
qed

subsection \<open>C4: what \<open>token_request\<close> requires of the authorization code\<close>

text \<open>
  C4 as stated does not hold: the precondition of \<open>token_request\<close> tests the code for
  being set, it does not trim it. With the code of three spaces, which is white space only
  and trims to the empty string, the precondition is true and the step resolves.
\<close>

theorem token_request_accepts_whitespace_code:
  "oauthStep (returned_state [0x20, 0x20, 0x20]) = token_request
   \<and> canTransition (oauthTransitions token_request)
       \<lparr>state = returned_state [0x20, 0x20, 0x20], serverUrl = mockServerUrl,
        provider = filled_store\<rparr>
   \<and> authorizationCode (returned_state [0x20, 0x20, 0x20]) = Some [0x20, 0x20, 0x20]
   \<and> list_all is_white_space [0x20, 0x20, 0x20]
   \<and> trim [0x20, 0x20, 0x20] = []
   \<and> outcome (executeStep mockClient mockServerUrl filled_store
        (returned_state [0x20, 0x20, 0x20])) = Inr ()"
  by (simp add: executeStep_def token_request_canTransition_def token_request_execute_def
      mock_defs trim_def is_white_space_def white_space_units_def)

text \<open>
  C4, amended. Whenever the precondition of \<open>token_request\<close> holds, \<open>authorizationCode\<close>
  is present and is not the empty string.
\<close>

theorem token_request_needs_nonempty_code:
  assumes "oauthStep s = token_request"
    and "canTransition (oauthTransitions (oauthStep s))
           \<lparr>state = s, serverUrl = target, provider = prov\<rparr>"
  shows "authorizationCode s \<noteq> None \<and> authorizationCode s \<noteq> Some []"
  using assms by (cases "authorizationCode s") (simp_all add: token_request_canTransition_def)

text \<open>C4 amended, at the state after the return with a typed code.\<close>

theorem token_request_needs_nonempty_code_witness:
  "oauthStep (returned_state (lit ''abc'')) = token_request
   \<and> canTransition (oauthTransitions (oauthStep (returned_state (lit ''abc''))))
       \<lparr>state = returned_state (lit ''abc''), serverUrl = mockServerUrl, provider = filled_store\<rparr>
   \<and> authorizationCode (returned_state (lit ''abc'')) \<noteq> None
   \<and> authorizationCode (returned_state (lit ''abc'')) \<noteq> Some []"
proof -
  have step: "oauthStep (returned_state (lit ''abc'')) = token_request"
    by (simp add: returned_state_def)
  have allowed: "canTransition (oauthTransitions (oauthStep (returned_state (lit ''abc''))))
       \<lparr>state = returned_state (lit ''abc''), serverUrl = mockServerUrl, provider = filled_store\<rparr>"
    by (simp add: token_request_canTransition_def mock_defs lit_eq_Nil)
  show ?thesis
    using step allowed token_request_needs_nonempty_code [OF step allowed] by simp
qed

subsection \<open>C5: \<open>authorization_code\<close> validates the code\<close>

lemma authorization_code_run:
  "authorization_code_execute pc \<lparr>state = s, serverUrl = target, provider = prov\<rparr> =
     (if blank (authorizationCode s)
      then \<lparr>effects =
              [updateState (no_updates
                 \<lparr>set_validationError :=
                    Some (Some (lit ''You need to provide an authorization code''))\<rparr>)],
            outcome = Inl (ThrownError (Error (lit ''Authorization code required'')))\<rparr>
      else \<lparr>effects =
              [updateState (no_updates
                 \<lparr>set_validationError := Some None, set_oauthStep := Some token_request\<rparr>)],
            outcome = Inr ()\<rparr>)"
  unfolding authorization_code_execute_def blank_iff by simp

text \<open>
  C5. At step \<open>authorization_code\<close>: when the code is absent, empty or white space only,
  \<open>executeStep\<close> rejects, its only patch sets \<open>validationError\<close> to a message and nothing
  else, and the step stays \<open>authorization_code\<close>; for every other code it resolves, and its
  only patch clears \<open>validationError\<close> and sets the step to \<open>token_request\<close>.
\<close>

theorem authorization_code_validates_code:
  assumes "oauthStep s = authorization_code"
  shows "executeStep pc target prov s =
     (if blank (authorizationCode s)
      then \<lparr>effects =
              [updateState (no_updates
                 \<lparr>set_validationError :=
                    Some (Some (lit ''You need to provide an authorization code''))\<rparr>)],
            outcome = Inl (ThrownError (Error (lit ''Authorization code required'')))\<rparr>
      else \<lparr>effects =
              [updateState (no_updates
                 \<lparr>set_validationError := Some None, set_oauthStep := Some token_request\<rparr>)],
            outcome = Inr ()\<rparr>)
    \<and> oauthStep (state_after s (executeStep pc target prov s)) =
        (if blank (authorizationCode s) then authorization_code else token_request)
    \<and> validationError (state_after s (executeStep pc target prov s)) =
        (if blank (authorizationCode s)
         then Some (lit ''You need to provide an authorization code'') else None)"
proof -
  have run: "executeStep pc target prov s =
      authorization_code_execute pc \<lparr>state = s, serverUrl = target, provider = prov\<rparr>"
    using assms by (simp add: executeStep_def Let_def)
  show ?thesis
    unfolding run authorization_code_run
    using assms
    by (simp add: state_after_def patches_simps merge_def no_updates_def)
qed

text \<open>C5, at the code of three spaces and at the code \<open>abc\<close>.\<close>

theorem authorization_code_validates_code_witness:
  "oauthStep (EMPTY_DEBUGGER_STATE\<lparr>oauthStep := authorization_code,
       authorizationCode := Some [0x20, 0x20, 0x20]\<rparr>) = authorization_code
   \<and> outcome (executeStep mockClient mockServerUrl empty_store
        (EMPTY_DEBUGGER_STATE\<lparr>oauthStep := authorization_code,
           authorizationCode := Some [0x20, 0x20, 0x20]\<rparr>))
       = Inl (ThrownError (Error (lit ''Authorization code required'')))
   \<and> oauthStep (state_after
        (EMPTY_DEBUGGER_STATE\<lparr>oauthStep := authorization_code,
           authorizationCode := Some [0x20, 0x20, 0x20]\<rparr>)
        (executeStep mockClient mockServerUrl empty_store
          (EMPTY_DEBUGGER_STATE\<lparr>oauthStep := authorization_code,
             authorizationCode := Some [0x20, 0x20, 0x20]\<rparr>))) = authorization_code
   \<and> oauthStep (EMPTY_DEBUGGER_STATE\<lparr>oauthStep := authorization_code,
       authorizationCode := Some (lit ''abc'')\<rparr>) = authorization_code
   \<and> outcome (executeStep mockClient mockServerUrl empty_store
        (EMPTY_DEBUGGER_STATE\<lparr>oauthStep := authorization_code,
           authorizationCode := Some (lit ''abc'')\<rparr>)) = Inr ()
   \<and> oauthStep (state_after
        (EMPTY_DEBUGGER_STATE\<lparr>oauthStep := authorization_code,
           authorizationCode := Some (lit ''abc'')\<rparr>)
        (executeStep mockClient mockServerUrl empty_store
          (EMPTY_DEBUGGER_STATE\<lparr>oauthStep := authorization_code,
             authorizationCode := Some (lit ''abc'')\<rparr>))) = token_request"
proof -
  have blank_code: "blank (Some [0x20, 0x20, 0x20])"
    by (simp add: blank_def is_white_space_def white_space_units_def)
  have typed_code: "\<not> blank (Some (lit ''abc''))"
    by (simp add: blank_def lit_def is_white_space_def white_space_units_def)
  have step1: "oauthStep (EMPTY_DEBUGGER_STATE\<lparr>oauthStep := authorization_code,
       authorizationCode := Some [0x20, 0x20, 0x20]\<rparr>) = authorization_code"
    by simp
  have step2: "oauthStep (EMPTY_DEBUGGER_STATE\<lparr>oauthStep := authorization_code,
       authorizationCode := Some (lit ''abc'')\<rparr>) = authorization_code"
    by simp
  note rejected =
    authorization_code_validates_code [OF step1, of mockClient mockServerUrl empty_store]
  note accepted =
    authorization_code_validates_code [OF step2, of mockClient mockServerUrl empty_store]
  have r1: "outcome (executeStep mockClient mockServerUrl empty_store
        (EMPTY_DEBUGGER_STATE\<lparr>oauthStep := authorization_code,
           authorizationCode := Some [0x20, 0x20, 0x20]\<rparr>))
       = Inl (ThrownError (Error (lit ''Authorization code required'')))"
    using rejected [THEN conjunct1] blank_code by simp
  have r2: "oauthStep (state_after
        (EMPTY_DEBUGGER_STATE\<lparr>oauthStep := authorization_code,
           authorizationCode := Some [0x20, 0x20, 0x20]\<rparr>)
        (executeStep mockClient mockServerUrl empty_store
          (EMPTY_DEBUGGER_STATE\<lparr>oauthStep := authorization_code,
             authorizationCode := Some [0x20, 0x20, 0x20]\<rparr>))) = authorization_code"
    using rejected [THEN conjunct2, THEN conjunct1] blank_code by simp
  have r3: "outcome (executeStep mockClient mockServerUrl empty_store
        (EMPTY_DEBUGGER_STATE\<lparr>oauthStep := authorization_code,
           authorizationCode := Some (lit ''abc'')\<rparr>)) = Inr ()"
    using accepted [THEN conjunct1] typed_code by simp
  have r4: "oauthStep (state_after
        (EMPTY_DEBUGGER_STATE\<lparr>oauthStep := authorization_code,
           authorizationCode := Some (lit ''abc'')\<rparr>)
        (executeStep mockClient mockServerUrl empty_store
          (EMPTY_DEBUGGER_STATE\<lparr>oauthStep := authorization_code,
             authorizationCode := Some (lit ''abc'')\<rparr>))) = token_request"
    using accepted [THEN conjunct2, THEN conjunct1] typed_code by simp
  from step1 r1 r2 step2 r3 r4 show ?thesis by blast
qed

subsection \<open>C6: a failing discovery of the resource metadata\<close>

lemma metadata_discovery_run:
  assumes "oauthStep s = metadata_discovery"
  shows "executeStep pc target prov s =
      metadata_discovery_execute pc \<lparr>state = s, serverUrl = target, provider = prov\<rparr>"
  using assms by (simp add: executeStep_def Let_def)

lemma metadata_discovery_own_url:
  assumes "new_URL pc target = Inr own"
    and "discover_resource pc target own = Inr (own, rm, err)"
    and "discoverOAuthMetadata pc own = Inr (Some metadata)"
    and "parseAsync pc metadata = Inr parsedMetadata"
  shows "metadata_discovery_execute pc \<lparr>state = s, serverUrl = target, provider = prov\<rparr> =
     \<lparr>effects =
        [Request (DiscoverOAuthProtectedResourceMetadata target),
         Request (DiscoverOAuthMetadata own),
         Store (saveServerMetadata parsedMetadata),
         updateState (no_updates
           \<lparr>set_resourceMetadata := Some rm,
            set_resourceMetadataError := Some err,
            set_authServerUrl := Some (Some own),
            set_oauthMetadata := Some (Some parsedMetadata),
            set_oauthStep := Some client_registration\<rparr>)],
      outcome = Inr ()\<rparr>"
  using assms by (simp add: metadata_discovery_execute_def)

lemma state_after_discovery:
  assumes "patches r =
     [no_updates
        \<lparr>set_resourceMetadata := Some rm,
         set_resourceMetadataError := Some err,
         set_authServerUrl := Some (Some own),
         set_oauthMetadata := Some (Some parsedMetadata),
         set_oauthStep := Some client_registration\<rparr>]"
  shows "oauthStep (state_after s r) = client_registration
       \<and> authServerUrl (state_after s r) = Some own
       \<and> resourceMetadata (state_after s r) = rm
       \<and> resourceMetadataError (state_after s r) = err
       \<and> oauthMetadata (state_after s r) = Some parsedMetadata"
  using assms by (simp add: state_after_def merge_def no_updates_def)

lemma mock_new_URL_plain: "mock_new_URL mockServerUrl = Inr mockServer_URL"
  by (simp add: mock_new_URL_def mockServerUrl_def mockServer_URL_def)

lemma mock_new_URL_with_path:
  "mock_new_URL mockServerUrl_with_path = Inr mockServer_URL_with_path"
  by (simp add: mock_new_URL_def mockServerUrl_with_path_def mockServer_URL_with_path_def
      lit_def)

lemma mockServer_URL_with_path_parts:
  "href mockServer_URL_with_path = lit ''https://example.com/mcp/sse''"
  "origin mockServer_URL_with_path = lit ''https://example.com''"
  "href mockServer_URL_with_path \<noteq> origin mockServer_URL_with_path"
  "mock_new_URL (origin mockServer_URL_with_path) = Inr mockServer_URL"
  "mockServer_URL_with_path \<noteq> mockServer_URL"
  by (simp_all add: mockServer_URL_with_path_def mockServer_URL_def mock_new_URL_def lit_def)

text \<open>
  C6 as stated does not hold, in two ways. At a target whose URL has a path,
  \<open>https://example.com/mcp/sse\<close>, with the discovery of the resource metadata rejected
  with an \<open>Error\<close>, the step resolves and \<open>authServerUrl\<close> is the URL built from the
  whole target URL, path included: it is not the target's origin \<open>https://example.com\<close>
  and not the URL built from that origin. And when the discovery is rejected with an object
  that \<open>String\<close> cannot convert, the \<open>catch\<close> clause throws: the step rejects after the
  one request, with no patch, although the discovery of the authorization-server metadata
  would succeed and validate.
\<close>

theorem resource_metadata_failure_keeps_path_or_rejects:
  "discoverOAuthProtectedResourceMetadata mockClient mockServerUrl_with_path
     = Inl (ThrownError mockError)
   \<and> outcome (executeStep mockClient mockServerUrl_with_path empty_store EMPTY_DEBUGGER_STATE)
       = Inr ()
   \<and> authServerUrl (state_after EMPTY_DEBUGGER_STATE
        (executeStep mockClient mockServerUrl_with_path empty_store EMPTY_DEBUGGER_STATE))
       = Some mockServer_URL_with_path
   \<and> href mockServer_URL_with_path = lit ''https://example.com/mcp/sse''
   \<and> origin mockServer_URL_with_path = lit ''https://example.com''
   \<and> href mockServer_URL_with_path \<noteq> origin mockServer_URL_with_path
   \<and> new_URL mockClient (origin mockServer_URL_with_path) = Inr mockServer_URL
   \<and> mockServer_URL_with_path \<noteq> mockServer_URL
   \<and> discoverOAuthProtectedResourceMetadata mockClient_throwing_object mockServerUrl
       = Inl (ThrownUnprintable
           (ThrownError (Error (lit ''Cannot convert object to primitive value''))))
   \<and> new_URL mockClient_throwing_object mockServerUrl = Inr mockServer_URL
   \<and> discoverOAuthMetadata mockClient_throwing_object mockServer_URL
       = Inr (Some mockOAuthMetadata)
   \<and> parseAsync mockClient_throwing_object mockOAuthMetadata = Inr mockOAuthMetadata
   \<and> executeStep mockClient_throwing_object mockServerUrl empty_store EMPTY_DEBUGGER_STATE
       = \<lparr>effects = [Request (DiscoverOAuthProtectedResourceMetadata mockServerUrl)],
          outcome = Inl (ThrownError
            (Error (lit ''Cannot convert object to primitive value'')))\<rparr>"
proof -
  have run: "executeStep mockClient mockServerUrl_with_path empty_store EMPTY_DEBUGGER_STATE =
     \<lparr>effects =
        [Request (DiscoverOAuthProtectedResourceMetadata mockServerUrl_with_path),
         Request (DiscoverOAuthMetadata mockServer_URL_with_path),
         Store (saveServerMetadata mockOAuthMetadata),
         updateState (no_updates
           \<lparr>set_resourceMetadata := Some None,
            set_resourceMetadataError := Some (Some mockError),
            set_authServerUrl := Some (Some mockServer_URL_with_path),
            set_oauthMetadata := Some (Some mockOAuthMetadata),
            set_oauthStep := Some client_registration\<rparr>)],
      outcome = Inr ()\<rparr>"
    by (simp add: executeStep_def EMPTY_DEBUGGER_STATE_def metadata_discovery_execute_def
        discover_resource_def mockClient_def mock_new_URL_with_path)
  have after: "authServerUrl (state_after EMPTY_DEBUGGER_STATE
        (executeStep mockClient mockServerUrl_with_path empty_store EMPTY_DEBUGGER_STATE))
       = Some mockServer_URL_with_path"
    by (simp add: run state_after_def patches_simps merge_def no_updates_def)
  have rejected:
    "executeStep mockClient_throwing_object mockServerUrl empty_store EMPTY_DEBUGGER_STATE
       = \<lparr>effects = [Request (DiscoverOAuthProtectedResourceMetadata mockServerUrl)],
          outcome = Inl (ThrownError
            (Error (lit ''Cannot convert object to primitive value'')))\<rparr>"
    by (simp add: executeStep_def EMPTY_DEBUGGER_STATE_def metadata_discovery_execute_def
        discover_resource_def mockClient_throwing_object_def mockClient_def mock_new_URL_plain)
  have c1: "discoverOAuthProtectedResourceMetadata mockClient mockServerUrl_with_path
     = Inl (ThrownError mockError)"
    by (simp add: mockClient_def)
  have c2: "outcome (executeStep mockClient mockServerUrl_with_path empty_store
        EMPTY_DEBUGGER_STATE) = Inr ()"
    by (simp add: run)
  have c3: "new_URL mockClient (origin mockServer_URL_with_path) = Inr mockServer_URL"
    by (simp add: mockClient_def mockServer_URL_with_path_parts(4))
  have d1: "discoverOAuthProtectedResourceMetadata mockClient_throwing_object mockServerUrl
       = Inl (ThrownUnprintable
           (ThrownError (Error (lit ''Cannot convert object to primitive value''))))"
    by (simp add: mockClient_throwing_object_def)
  have d2: "new_URL mockClient_throwing_object mockServerUrl = Inr mockServer_URL"
    by (simp add: mockClient_throwing_object_def mockClient_def mock_new_URL_plain)
  have d3: "discoverOAuthMetadata mockClient_throwing_object mockServer_URL
       = Inr (Some mockOAuthMetadata)"
    by (simp add: mockClient_throwing_object_def mockClient_def)
  have d4: "parseAsync mockClient_throwing_object mockOAuthMetadata = Inr mockOAuthMetadata"
    by (simp add: mockClient_throwing_object_def mockClient_def)
  from c1 c2 after mockServer_URL_with_path_parts(1,2,3) c3 mockServer_URL_with_path_parts(5)
    d1 d2 d3 d4 rejected
  show ?thesis by blast
qed

text \<open>
  C6, amended. At step \<open>metadata_discovery\<close>, let \<open>own\<close> be the URL object built from
  the target's \<open>serverUrl\<close> (the whole URL, a path included, not only its origin). When
  the discovery of the protected-resource metadata throws a value \<open>e\<close> that is an
  \<open>Error\<close>, or a value that \<open>String\<close> converts to a string, and the discovery of the
  authorization-server metadata at \<open>own\<close> yields metadata that validates, \<open>executeStep\<close>
  resolves with one patch, in which \<open>authServerUrl\<close> is \<open>own\<close>, \<open>resourceMetadata\<close> is
  \<open>null\<close>, \<open>resourceMetadataError\<close> is the error \<open>err\<close> that captures \<open>e\<close> (\<open>e\<close>
  itself when it is an \<open>Error\<close>, else the \<open>Error\<close> whose message is \<open>String(e)\<close>), and
  the step is \<open>client_registration\<close>.
\<close>

theorem resource_metadata_failure_falls_back_to_own_url:
  assumes "oauthStep s = metadata_discovery"
    and "new_URL pc target = Inr own"
    and "discoverOAuthProtectedResourceMetadata pc target = Inl e"
    and "e = ThrownError err \<or> e = ThrownValue (message err)"
    and "discoverOAuthMetadata pc own = Inr (Some metadata)"
    and "parseAsync pc metadata = Inr parsedMetadata"
  shows "outcome (executeStep pc target prov s) = Inr ()
       \<and> patches (executeStep pc target prov s) =
           [no_updates
              \<lparr>set_resourceMetadata := Some None,
               set_resourceMetadataError := Some (Some err),
               set_authServerUrl := Some (Some own),
               set_oauthMetadata := Some (Some parsedMetadata),
               set_oauthStep := Some client_registration\<rparr>]
       \<and> requests (executeStep pc target prov s) =
           [DiscoverOAuthProtectedResourceMetadata target, DiscoverOAuthMetadata own]
       \<and> authServerUrl (state_after s (executeStep pc target prov s)) = Some own
       \<and> resourceMetadataError (state_after s (executeStep pc target prov s)) = Some err
       \<and> oauthStep (state_after s (executeStep pc target prov s)) = client_registration"
proof -
  have captured: "as_Error e = Inr err"
    using assms(4) by (cases err) auto
  have resource: "discover_resource pc target own = Inr (own, None, Some err)"
    using assms(3) captured by (simp add: discover_resource_def)
  have run: "executeStep pc target prov s =
     \<lparr>effects =
        [Request (DiscoverOAuthProtectedResourceMetadata target),
         Request (DiscoverOAuthMetadata own),
         Store (saveServerMetadata parsedMetadata),
         updateState (no_updates
           \<lparr>set_resourceMetadata := Some None,
            set_resourceMetadataError := Some (Some err),
            set_authServerUrl := Some (Some own),
            set_oauthMetadata := Some (Some parsedMetadata),
            set_oauthStep := Some client_registration\<rparr>)],
      outcome = Inr ()\<rparr>"
    using metadata_discovery_run [OF assms(1)]
      metadata_discovery_own_url [OF assms(2) resource assms(5) assms(6)]
    by simp
  have p: "patches (executeStep pc target prov s) =
           [no_updates
              \<lparr>set_resourceMetadata := Some None,
               set_resourceMetadataError := Some (Some err),
               set_authServerUrl := Some (Some own),
               set_oauthMetadata := Some (Some parsedMetadata),
               set_oauthStep := Some client_registration\<rparr>]"
    by (simp add: run patches_simps)
  have q: "requests (executeStep pc target prov s) =
           [DiscoverOAuthProtectedResourceMetadata target, DiscoverOAuthMetadata own]"
    by (simp add: run requests_simps)
  have out: "outcome (executeStep pc target prov s) = Inr ()"
    by (simp add: run)
  show ?thesis
    using out p q state_after_discovery [OF p, of s] by simp
qed

text \<open>
  C6 amended, at the test's mocks, where the discovery is rejected with an \<open>Error\<close>, and
  where it is rejected with the string \<open>Not Found\<close>; the target is
  \<open>https://example.com\<close>, whose URL object has the \<open>href\<close> \<open>https://example.com/\<close>.
\<close>

theorem resource_metadata_failure_falls_back_to_own_url_witness:
  "oauthStep EMPTY_DEBUGGER_STATE = metadata_discovery
   \<and> new_URL mockClient mockServerUrl = Inr mockServer_URL
   \<and> discoverOAuthProtectedResourceMetadata mockClient mockServerUrl = Inl (ThrownError mockError)
   \<and> discoverOAuthMetadata mockClient mockServer_URL = Inr (Some mockOAuthMetadata)
   \<and> parseAsync mockClient mockOAuthMetadata = Inr mockOAuthMetadata
   \<and> outcome (executeStep mockClient mockServerUrl empty_store EMPTY_DEBUGGER_STATE) = Inr ()
   \<and> authServerUrl (state_after EMPTY_DEBUGGER_STATE
        (executeStep mockClient mockServerUrl empty_store EMPTY_DEBUGGER_STATE))
       = Some (URL (lit ''https://example.com/'') (lit ''https://example.com''))
   \<and> resourceMetadataError (state_after EMPTY_DEBUGGER_STATE
        (executeStep mockClient mockServerUrl empty_store EMPTY_DEBUGGER_STATE))
       = Some mockError
   \<and> oauthStep (state_after EMPTY_DEBUGGER_STATE
        (executeStep mockClient mockServerUrl empty_store EMPTY_DEBUGGER_STATE))
       = client_registration
   \<and> discoverOAuthProtectedResourceMetadata mockClient_throwing_string mockServerUrl
       = Inl (ThrownValue (lit ''Not Found''))
   \<and> outcome (executeStep mockClient_throwing_string mockServerUrl empty_store
        EMPTY_DEBUGGER_STATE) = Inr ()
   \<and> resourceMetadataError (state_after EMPTY_DEBUGGER_STATE
        (executeStep mockClient_throwing_string mockServerUrl empty_store EMPTY_DEBUGGER_STATE))
       = Some (Error (lit ''Not Found''))"
proof -
  have a1: "oauthStep EMPTY_DEBUGGER_STATE = metadata_discovery"
    by (simp add: EMPTY_DEBUGGER_STATE_def)
  have a2: "new_URL mockClient mockServerUrl = Inr mockServer_URL"
    by (simp add: mockClient_def mock_new_URL_plain)
  have a3: "discoverOAuthProtectedResourceMetadata mockClient mockServerUrl
      = Inl (ThrownError mockError)"
    by (simp add: mockClient_def)
  have a4: "ThrownError mockError = ThrownError mockError
      \<or> ThrownError mockError = ThrownValue (message mockError)"
    by simp
  have a5: "discoverOAuthMetadata mockClient mockServer_URL = Inr (Some mockOAuthMetadata)"
    by (simp add: mockClient_def)
  have a6: "parseAsync mockClient mockOAuthMetadata = Inr mockOAuthMetadata"
    by (simp add: mockClient_def)
  have b2: "new_URL mockClient_throwing_string mockServerUrl = Inr mockServer_URL"
    by (simp add: mockClient_throwing_string_def mockClient_def mock_new_URL_plain)
  have b3: "discoverOAuthProtectedResourceMetadata mockClient_throwing_string mockServerUrl
      = Inl (ThrownValue (lit ''Not Found''))"
    by (simp add: mockClient_throwing_string_def)
  have b4: "ThrownValue (lit ''Not Found'') = ThrownError (Error (lit ''Not Found''))
      \<or> ThrownValue (lit ''Not Found'') = ThrownValue (message (Error (lit ''Not Found'')))"
    by simp
  have b5: "discoverOAuthMetadata mockClient_throwing_string mockServer_URL
      = Inr (Some mockOAuthMetadata)"
    by (simp add: mockClient_throwing_string_def mockClient_def)
  have b6: "parseAsync mockClient_throwing_string mockOAuthMetadata = Inr mockOAuthMetadata"
    by (simp add: mockClient_throwing_string_def mockClient_def)
  show ?thesis
    using a1 a2 a3 a5 a6 b3
      resource_metadata_failure_falls_back_to_own_url [OF a1 a2 a3 a4 a5 a6, of empty_store]
      resource_metadata_failure_falls_back_to_own_url [OF a1 b2 b3 b4 b5 b6, of empty_store]
    by (simp add: mockServer_URL_def)
qed

subsection \<open>C10: resource metadata without authorization servers\<close>

text \<open>
  C10 as stated does not hold: \<open>authServerUrl\<close> is kept at the URL built from the whole
  target URL, not at the target's origin. At the target \<open>https://example.com/mcp/sse\<close>,
  with resource metadata whose list of authorization servers is empty, the step resolves,
  the authorization-server metadata is asked for at the URL with the path, and
  \<open>authServerUrl\<close> is that URL: it is not the origin \<open>https://example.com\<close> and not the
  URL built from that origin.
\<close>

theorem resource_metadata_without_servers_keeps_path:
  "discoverOAuthProtectedResourceMetadata mockClient_with_resource mockServerUrl_with_path
     = Inr (Some mockResourceMetadata)
   \<and> authorization_servers mockResourceMetadata = Some []
   \<and> outcome (executeStep mockClient_with_resource mockServerUrl_with_path empty_store
        EMPTY_DEBUGGER_STATE) = Inr ()
   \<and> requests (executeStep mockClient_with_resource mockServerUrl_with_path empty_store
        EMPTY_DEBUGGER_STATE)
       = [DiscoverOAuthProtectedResourceMetadata mockServerUrl_with_path,
          DiscoverOAuthMetadata mockServer_URL_with_path]
   \<and> authServerUrl (state_after EMPTY_DEBUGGER_STATE
        (executeStep mockClient_with_resource mockServerUrl_with_path empty_store
          EMPTY_DEBUGGER_STATE))
       = Some mockServer_URL_with_path
   \<and> href mockServer_URL_with_path = lit ''https://example.com/mcp/sse''
   \<and> origin mockServer_URL_with_path = lit ''https://example.com''
   \<and> href mockServer_URL_with_path \<noteq> origin mockServer_URL_with_path
   \<and> new_URL mockClient_with_resource (origin mockServer_URL_with_path) = Inr mockServer_URL
   \<and> mockServer_URL_with_path \<noteq> mockServer_URL"
proof -
  have run: "executeStep mockClient_with_resource mockServerUrl_with_path empty_store
        EMPTY_DEBUGGER_STATE =
     \<lparr>effects =
        [Request (DiscoverOAuthProtectedResourceMetadata mockServerUrl_with_path),
         Request (DiscoverOAuthMetadata mockServer_URL_with_path),
         Store (saveServerMetadata mockOAuthMetadata),
         updateState (no_updates
           \<lparr>set_resourceMetadata := Some (Some mockResourceMetadata),
            set_resourceMetadataError := Some None,
            set_authServerUrl := Some (Some mockServer_URL_with_path),
            set_oauthMetadata := Some (Some mockOAuthMetadata),
            set_oauthStep := Some client_registration\<rparr>)],
      outcome = Inr ()\<rparr>"
    by (simp add: executeStep_def EMPTY_DEBUGGER_STATE_def metadata_discovery_execute_def
        discover_resource_def mockClient_with_resource_def mockClient_def
        mock_new_URL_with_path mockResourceMetadata_def)
  have after: "authServerUrl (state_after EMPTY_DEBUGGER_STATE
        (executeStep mockClient_with_resource mockServerUrl_with_path empty_store
          EMPTY_DEBUGGER_STATE))
       = Some mockServer_URL_with_path"
    by (simp add: run state_after_def patches_simps merge_def no_updates_def)
  have c1: "discoverOAuthProtectedResourceMetadata mockClient_with_resource
        mockServerUrl_with_path = Inr (Some mockResourceMetadata)"
    by (simp add: mockClient_with_resource_def)
  have c2: "authorization_servers mockResourceMetadata = Some []"
    by (simp add: mockResourceMetadata_def)
  have c3: "outcome (executeStep mockClient_with_resource mockServerUrl_with_path empty_store
        EMPTY_DEBUGGER_STATE) = Inr ()"
    by (simp add: run)
  have c4: "requests (executeStep mockClient_with_resource mockServerUrl_with_path empty_store
        EMPTY_DEBUGGER_STATE)
       = [DiscoverOAuthProtectedResourceMetadata mockServerUrl_with_path,
          DiscoverOAuthMetadata mockServer_URL_with_path]"
    by (simp add: run requests_simps)
  have c5: "new_URL mockClient_with_resource (origin mockServer_URL_with_path)
      = Inr mockServer_URL"
    by (simp add: mockClient_with_resource_def mockClient_def
        mockServer_URL_with_path_parts(4))
  from c1 c2 c3 c4 after mockServer_URL_with_path_parts(1,2,3) c5
    mockServer_URL_with_path_parts(5)
  show ?thesis by blast
qed

text \<open>
  C10, amended. At step \<open>metadata_discovery\<close>, let \<open>own\<close> be the URL object built from
  the target's \<open>serverUrl\<close> (the whole URL, a path included, not only its origin). When
  the discovery of the protected-resource metadata yields metadata \<open>rm\<close> whose
  \<open>authorization_servers\<close> is absent or empty, and the discovery of the
  authorization-server metadata at \<open>own\<close> yields metadata that validates, \<open>executeStep\<close>
  resolves with one patch, in which \<open>authServerUrl\<close> is \<open>own\<close>,
  \<open>resourceMetadataError\<close> is \<open>null\<close>, \<open>resourceMetadata\<close> is \<open>rm\<close>, and the step is
  \<open>client_registration\<close>.
\<close>

theorem resource_metadata_without_servers_keeps_own_url:
  assumes "oauthStep s = metadata_discovery"
    and "new_URL pc target = Inr own"
    and "discoverOAuthProtectedResourceMetadata pc target = Inr (Some rm)"
    and "authorization_servers rm = None \<or> authorization_servers rm = Some []"
    and "discoverOAuthMetadata pc own = Inr (Some metadata)"
    and "parseAsync pc metadata = Inr parsedMetadata"
  shows "outcome (executeStep pc target prov s) = Inr ()
       \<and> patches (executeStep pc target prov s) =
           [no_updates
              \<lparr>set_resourceMetadata := Some (Some rm),
               set_resourceMetadataError := Some None,
               set_authServerUrl := Some (Some own),
               set_oauthMetadata := Some (Some parsedMetadata),
               set_oauthStep := Some client_registration\<rparr>]
       \<and> authServerUrl (state_after s (executeStep pc target prov s)) = Some own
       \<and> resourceMetadataError (state_after s (executeStep pc target prov s)) = None
       \<and> resourceMetadata (state_after s (executeStep pc target prov s)) = Some rm
       \<and> oauthStep (state_after s (executeStep pc target prov s)) = client_registration"
proof -
  have resource: "discover_resource pc target own = Inr (own, Some rm, None)"
    using assms(3,4) by (auto simp: discover_resource_def)
  have run: "executeStep pc target prov s =
     \<lparr>effects =
        [Request (DiscoverOAuthProtectedResourceMetadata target),
         Request (DiscoverOAuthMetadata own),
         Store (saveServerMetadata parsedMetadata),
         updateState (no_updates
           \<lparr>set_resourceMetadata := Some (Some rm),
            set_resourceMetadataError := Some None,
            set_authServerUrl := Some (Some own),
            set_oauthMetadata := Some (Some parsedMetadata),
            set_oauthStep := Some client_registration\<rparr>)],
      outcome = Inr ()\<rparr>"
    using metadata_discovery_run [OF assms(1)]
      metadata_discovery_own_url [OF assms(2) resource assms(5) assms(6)]
    by simp
  have p: "patches (executeStep pc target prov s) =
           [no_updates
              \<lparr>set_resourceMetadata := Some (Some rm),
               set_resourceMetadataError := Some None,
               set_authServerUrl := Some (Some own),
               set_oauthMetadata := Some (Some parsedMetadata),
               set_oauthStep := Some client_registration\<rparr>]"
    by (simp add: run patches_simps)
  have out: "outcome (executeStep pc target prov s) = Inr ()"
    by (simp add: run)
  show ?thesis
    using out p state_after_discovery [OF p, of s] by simp
qed

text \<open>
  C10 amended, at resource metadata whose list of authorization servers is empty; the target
  is \<open>https://example.com\<close>, whose URL object has the \<open>href\<close>
  \<open>https://example.com/\<close>.
\<close>

theorem resource_metadata_without_servers_keeps_own_url_witness:
  "oauthStep EMPTY_DEBUGGER_STATE = metadata_discovery
   \<and> new_URL mockClient_with_resource mockServerUrl = Inr mockServer_URL
   \<and> discoverOAuthProtectedResourceMetadata mockClient_with_resource mockServerUrl
       = Inr (Some mockResourceMetadata)
   \<and> (authorization_servers mockResourceMetadata = None
        \<or> authorization_servers mockResourceMetadata = Some [])
   \<and> discoverOAuthMetadata mockClient_with_resource mockServer_URL
       = Inr (Some mockOAuthMetadata)
   \<and> parseAsync mockClient_with_resource mockOAuthMetadata = Inr mockOAuthMetadata
   \<and> outcome (executeStep mockClient_with_resource mockServerUrl empty_store
        EMPTY_DEBUGGER_STATE) = Inr ()
   \<and> authServerUrl (state_after EMPTY_DEBUGGER_STATE
        (executeStep mockClient_with_resource mockServerUrl empty_store EMPTY_DEBUGGER_STATE))
       = Some (URL (lit ''https://example.com/'') (lit ''https://example.com''))
   \<and> resourceMetadataError (state_after EMPTY_DEBUGGER_STATE
        (executeStep mockClient_with_resource mockServerUrl empty_store EMPTY_DEBUGGER_STATE))
       = None
   \<and> resourceMetadata (state_after EMPTY_DEBUGGER_STATE
        (executeStep mockClient_with_resource mockServerUrl empty_store EMPTY_DEBUGGER_STATE))
       = Some mockResourceMetadata
   \<and> oauthStep (state_after EMPTY_DEBUGGER_STATE
        (executeStep mockClient_with_resource mockServerUrl empty_store EMPTY_DEBUGGER_STATE))
       = client_registration"
proof -
  have a1: "oauthStep EMPTY_DEBUGGER_STATE = metadata_discovery"
    by (simp add: EMPTY_DEBUGGER_STATE_def)
  have a2: "new_URL mockClient_with_resource mockServerUrl = Inr mockServer_URL"
    by (simp add: mockClient_with_resource_def mockClient_def mock_new_URL_plain)
  have a3: "discoverOAuthProtectedResourceMetadata mockClient_with_resource mockServerUrl
       = Inr (Some mockResourceMetadata)"
    by (simp add: mockClient_with_resource_def mockClient_def)
  have a4: "authorization_servers mockResourceMetadata = None
        \<or> authorization_servers mockResourceMetadata = Some []"
    by (simp add: mockResourceMetadata_def)
  have a5: "discoverOAuthMetadata mockClient_with_resource mockServer_URL
       = Inr (Some mockOAuthMetadata)"
    by (simp add: mockClient_with_resource_def mockClient_def)
  have a6: "parseAsync mockClient_with_resource mockOAuthMetadata = Inr mockOAuthMetadata"
    by (simp add: mockClient_with_resource_def mockClient_def)
  show ?thesis
    using a1 a2 a3 a4 a5 a6
      resource_metadata_without_servers_keeps_own_url [OF a1 a2 a3 a4 a5 a6, of empty_store]
    by (simp add: mockServer_URL_def)
qed

subsection \<open>C7: the scope of the registration\<close>





subsection \<open>C9: the code verifier never reaches the Debugger State\<close>

lemma with_verifier_other [simp]:
  "new_URL (with_verifier v pc) = new_URL pc"
  "discoverOAuthProtectedResourceMetadata (with_verifier v pc)
     = discoverOAuthProtectedResourceMetadata pc"
  "discoverOAuthMetadata (with_verifier v pc) = discoverOAuthMetadata pc"
  "parseAsync (with_verifier v pc) = parseAsync pc"
  "registerClient (with_verifier v pc) = registerClient pc"
  "exchangeAuthorization (with_verifier v pc) = exchangeAuthorization pc"
  by (simp_all add: with_verifier_def)

lemma with_verifier_elsewhere:
  "metadata_discovery_execute (with_verifier v pc) ctx = metadata_discovery_execute pc ctx"
  "client_registration_execute (with_verifier v pc) ctx = client_registration_execute pc ctx"
  "authorization_code_execute (with_verifier v pc) ctx = authorization_code_execute pc ctx"
  "token_request_execute (with_verifier v pc) ctx = token_request_execute pc ctx"
  by (simp_all add: metadata_discovery_execute_def discover_resource_def
      client_registration_execute_def authorization_code_execute_def token_request_execute_def
      cong: sum.case_cong option.case_cong prod.case_cong list.case_cong)

lemma with_verifier_redirect:
  "patches (authorization_redirect_execute (with_verifier v pc) ctx)
     = patches (authorization_redirect_execute pc ctx)
   \<and> outcome (authorization_redirect_execute (with_verifier v pc) ctx)
     = outcome (authorization_redirect_execute pc ctx)
   \<and> (outcome (authorization_redirect_execute (with_verifier v pc) ctx) = Inr () \<longrightarrow>
        store_writes (authorization_redirect_execute (with_verifier v pc) ctx)
          = [saveCodeVerifier v])"
  by (simp add: authorization_redirect_execute_def with_verifier_def Let_def patches_simps
      store_writes_simps split: option.splits sum.splits prod.splits)

lemma executeStep_with_verifier:
  "patches (executeStep (with_verifier v pc) target prov s) = patches (executeStep pc target prov s)
   \<and> outcome (executeStep (with_verifier v pc) target prov s)
       = outcome (executeStep pc target prov s)"
  by (cases "oauthStep s")
     (simp_all add: executeStep_def Let_def with_verifier_elsewhere with_verifier_redirect)

lemma executeStep_saves_verifier:
  assumes "oauthStep s = authorization_redirect"
    and "outcome (executeStep (with_verifier v pc) target prov s) = Inr ()"
  shows "store_writes (executeStep (with_verifier v pc) target prov s) = [saveCodeVerifier v]"
proof (cases "canTransition (oauthTransitions (oauthStep s))
                \<lparr>state = s, serverUrl = target, provider = prov\<rparr>")
  case False
  then show ?thesis using assms(2) by (simp add: executeStep_rejected)
next
  case True
  then have "executeStep (with_verifier v pc) target prov s =
      authorization_redirect_execute (with_verifier v pc)
        \<lparr>state = s, serverUrl = target, provider = prov\<rparr>"
    using assms(1) by (simp add: executeStep_accepted)
  then show ?thesis using assms(2) with_verifier_redirect by simp
qed

lemma codeVerifier_elsewhere:
  "metadata_discovery_execute pc (ctx\<lparr>provider := (provider ctx)\<lparr>codeVerifier := cv\<rparr>\<rparr>)
     = metadata_discovery_execute pc ctx"
  "client_registration_execute pc (ctx\<lparr>provider := (provider ctx)\<lparr>codeVerifier := cv\<rparr>\<rparr>)
     = client_registration_execute pc ctx"
  "authorization_redirect_execute pc (ctx\<lparr>provider := (provider ctx)\<lparr>codeVerifier := cv\<rparr>\<rparr>)
     = authorization_redirect_execute pc ctx"
  "authorization_code_execute pc (ctx\<lparr>provider := (provider ctx)\<lparr>codeVerifier := cv\<rparr>\<rparr>)
     = authorization_code_execute pc ctx"
  by (simp_all add: metadata_discovery_execute_def client_registration_execute_def
      authorization_redirect_execute_def authorization_code_execute_def
      cong: sum.case_cong option.case_cong prod.case_cong list.case_cong)

lemma token_request_stored_verifier:
  assumes "\<forall>a m c code redirect.
             exchangeAuthorization pc a m c code v redirect
               = exchangeAuthorization pc a m c code w redirect"
  shows "patches (token_request_execute pc
            \<lparr>state = s, serverUrl = target, provider = prov\<lparr>codeVerifier := Inr v\<rparr>\<rparr>)
       = patches (token_request_execute pc
            \<lparr>state = s, serverUrl = target, provider = prov\<lparr>codeVerifier := Inr w\<rparr>\<rparr>)"
  using assms
  by (simp add: token_request_execute_def Let_def patches_simps
      split: option.splits sum.splits)

lemma executeStep_stored_verifier:
  assumes "\<forall>a m c code redirect.
             exchangeAuthorization pc a m c code v redirect
               = exchangeAuthorization pc a m c code w redirect"
  shows "patches (executeStep pc target (prov\<lparr>codeVerifier := Inr v\<rparr>) s)
       = patches (executeStep pc target (prov\<lparr>codeVerifier := Inr w\<rparr>) s)"
proof (cases "oauthStep s")
  case token_request
  then show ?thesis
    using token_request_stored_verifier [OF assms]
    by (simp add: executeStep_def Let_def token_request_canTransition_def)
next
  case metadata_discovery
  then show ?thesis
    using codeVerifier_elsewhere(1)
      [where ctx = "\<lparr>state = s, serverUrl = target, provider = prov\<rparr>"]
    by (simp add: executeStep_def Let_def)
next
  case client_registration
  then show ?thesis
    using codeVerifier_elsewhere(2)
      [where ctx = "\<lparr>state = s, serverUrl = target, provider = prov\<rparr>"]
    by (simp add: executeStep_def Let_def)
next
  case authorization_redirect
  then show ?thesis
    using codeVerifier_elsewhere(3)
      [where ctx = "\<lparr>state = s, serverUrl = target, provider = prov\<rparr>"]
    by (simp add: executeStep_def Let_def)
next
  case authorization_code
  then show ?thesis
    using codeVerifier_elsewhere(4)
      [where ctx = "\<lparr>state = s, serverUrl = target, provider = prov\<rparr>"]
    by (simp add: executeStep_def Let_def)
next
  case complete
  then show ?thesis by (simp add: executeStep_def Let_def)
qed

text \<open>
  C9. No patch depends on a code verifier. Whatever verifier \<open>v\<close> the Protocol Client
  hands out with the authorization URL, the patches and the outcome of every step are the same
  as with the verifier it would have handed out. A resolving \<open>authorization_redirect\<close>
  saves exactly that verifier, and nothing else, to the store. The verifier that
  \<open>token_request\<close> loads from the store goes into the exchange request only: two stored
  verifiers that the Protocol Client answers alike give the same patches, at every step.
\<close>

theorem code_verifier_never_in_patch:
  "patches (executeStep (with_verifier v pc) target prov s) = patches (executeStep pc target prov s)
   \<and> outcome (executeStep (with_verifier v pc) target prov s)
       = outcome (executeStep pc target prov s)
   \<and> (oauthStep s = authorization_redirect
        \<and> outcome (executeStep (with_verifier v pc) target prov s) = Inr () \<longrightarrow>
          store_writes (executeStep (with_verifier v pc) target prov s) = [saveCodeVerifier v])
   \<and> ((\<forall>a m c code redirect.
          exchangeAuthorization pc a m c code v redirect
            = exchangeAuthorization pc a m c code w redirect) \<longrightarrow>
        patches (executeStep pc target (prov\<lparr>codeVerifier := Inr v\<rparr>) s)
          = patches (executeStep pc target (prov\<lparr>codeVerifier := Inr w\<rparr>) s))"
proof (intro conjI impI)
  show "patches (executeStep (with_verifier v pc) target prov s)
      = patches (executeStep pc target prov s)"
    by (simp add: executeStep_with_verifier)
  show "outcome (executeStep (with_verifier v pc) target prov s)
      = outcome (executeStep pc target prov s)"
    by (simp add: executeStep_with_verifier)
  show "store_writes (executeStep (with_verifier v pc) target prov s) = [saveCodeVerifier v]"
    if "oauthStep s = authorization_redirect
        \<and> outcome (executeStep (with_verifier v pc) target prov s) = Inr ()"
    using that by (simp add: executeStep_saves_verifier)
  show "patches (executeStep pc target (prov\<lparr>codeVerifier := Inr v\<rparr>) s)
      = patches (executeStep pc target (prov\<lparr>codeVerifier := Inr w\<rparr>) s)"
    if "\<forall>a m c code redirect.
          exchangeAuthorization pc a m c code v redirect
            = exchangeAuthorization pc a m c code w redirect"
    using that by (rule executeStep_stored_verifier)
qed

text \<open>
  C9, at the test's mocks with another verifier: the patch of the redirect step holds the
  authorization URL and the next step, the store receives the other verifier, and the patch of
  \<open>token_request\<close> holds the tokens and the next step.
\<close>

theorem code_verifier_never_in_patch_witness:
  "patches (executeStep (with_verifier (lit ''other_verifier'') mockClient) mockServerUrl empty_store
      (EMPTY_DEBUGGER_STATE\<lparr>oauthStep := authorization_redirect,
         oauthMetadata := Some mockOAuthMetadata, oauthClientInfo := Some mockOAuthClientInfo\<rparr>))
     = [no_updates\<lparr>set_authorizationUrl := Some (Some (lit ''https://oauth.example.com/authorize'')),
          set_oauthStep := Some authorization_code\<rparr>]
   \<and> store_writes (executeStep (with_verifier (lit ''other_verifier'') mockClient) mockServerUrl
        empty_store
        (EMPTY_DEBUGGER_STATE\<lparr>oauthStep := authorization_redirect,
           oauthMetadata := Some mockOAuthMetadata, oauthClientInfo := Some mockOAuthClientInfo\<rparr>))
     = [saveCodeVerifier (lit ''other_verifier'')]
   \<and> patches (executeStep mockClient mockServerUrl
        (filled_store\<lparr>codeVerifier := Inr (lit ''other_verifier'')\<rparr>) (returned_state (lit ''abc'')))
     = [no_updates\<lparr>set_oauthTokens := Some (Some mockOAuthTokens),
          set_oauthStep := Some complete\<rparr>]"
proof -
  let ?s = "EMPTY_DEBUGGER_STATE\<lparr>oauthStep := authorization_redirect,
         oauthMetadata := Some mockOAuthMetadata, oauthClientInfo := Some mockOAuthClientInfo\<rparr>"
  note fact = code_verifier_never_in_patch
    [of "lit ''other_verifier''" mockClient mockServerUrl empty_store ?s "lit ''test_verifier''"]
  note stored = code_verifier_never_in_patch
    [of "lit ''other_verifier''" mockClient mockServerUrl filled_store
        "returned_state (lit ''abc'')" "lit ''test_verifier''"]
  have run: "executeStep mockClient mockServerUrl empty_store ?s =
      \<lparr>effects =
         [Request (StartAuthorization mockServerUrl mockOAuthMetadata mockOAuthClientInfo
            (redirectUrl empty_store) None),
          Store (saveCodeVerifier (lit ''test_verifier'')),
          updateState (no_updates
            \<lparr>set_authorizationUrl := Some (Some (lit ''https://oauth.example.com/authorize'')),
             set_oauthStep := Some authorization_code\<rparr>)],
       outcome = Inr ()\<rparr>"
    by (simp add: executeStep_def authorization_redirect_execute_def mockClient_def
        mockOAuthMetadata_def EMPTY_DEBUGGER_STATE_def)
  have p: "patches (executeStep (with_verifier (lit ''other_verifier'') mockClient) mockServerUrl
        empty_store ?s)
     = [no_updates\<lparr>set_authorizationUrl := Some (Some (lit ''https://oauth.example.com/authorize'')),
          set_oauthStep := Some authorization_code\<rparr>]"
    using fact [THEN conjunct1] by (simp add: run patches_simps)
  have ok: "outcome (executeStep (with_verifier (lit ''other_verifier'') mockClient) mockServerUrl
        empty_store ?s) = Inr ()"
    using fact [THEN conjunct2, THEN conjunct1] by (simp add: run)
  have w: "store_writes (executeStep (with_verifier (lit ''other_verifier'') mockClient)
        mockServerUrl empty_store ?s) = [saveCodeVerifier (lit ''other_verifier'')]"
    using fact [THEN conjunct2, THEN conjunct2, THEN conjunct1] ok
    by (simp add: EMPTY_DEBUGGER_STATE_def)
  have same: "\<forall>a m c code redirect.
      exchangeAuthorization mockClient a m c code (lit ''other_verifier'') redirect
        = exchangeAuthorization mockClient a m c code (lit ''test_verifier'') redirect"
    by (simp add: mockClient_def)
  have original: "patches (executeStep mockClient mockServerUrl
        (filled_store\<lparr>codeVerifier := Inr (lit ''test_verifier'')\<rparr>) (returned_state (lit ''abc'')))
     = [no_updates\<lparr>set_oauthTokens := Some (Some mockOAuthTokens),
          set_oauthStep := Some complete\<rparr>]"
    by (simp add: executeStep_def token_request_canTransition_def token_request_execute_def
        mock_defs lit_eq_Nil patches_simps)
  have t: "patches (executeStep mockClient mockServerUrl
        (filled_store\<lparr>codeVerifier := Inr (lit ''other_verifier'')\<rparr>) (returned_state (lit ''abc'')))
     = [no_updates\<lparr>set_oauthTokens := Some (Some mockOAuthTokens),
          set_oauthStep := Some complete\<rparr>]"
    using stored [THEN conjunct2, THEN conjunct2, THEN conjunct2] same original by simp
  from p w t show ?thesis by blast
qed

end
